theory Spec2Isabelle
  imports Complex_Main "HOL-Library.Monad_Syntax"
begin

text \<open>
  An embedding of \<open>src/lib/faceShapeDetection.ts\<close>: the catalog
  \<open>faceShapeToHairstyles\<close>, the lookup \<open>getRecommendedHairstyles\<close>, and
  \<open>detectFaceShape\<close> from the point where it reads the landmark groups (line 106) to its
  return. Loading the detector and running it on the image come before that point and are
  not modelled; the \<open>console\<close> output changes no value and is left out.
\<close>

section \<open>Numbers\<close>

text \<open>
  The classifier computes with JavaScript numbers. They are modelled as exact reals
  extended with the three special values that the source can produce and that change
  its control flow: \<open>PInf\<close> (\<open>Infinity\<close>), \<open>NInf\<close> (\<open>-Infinity\<close>) and \<open>NaN\<close>.
  Every comparison with \<open>NaN\<close> is false, division of zero by zero is \<open>NaN\<close>, division of a
  non-zero finite number by zero is an infinity. Rounding, overflow of finite results and
  the sign of zero are not modelled: a finite result is the exact real and a zero divisor
  counts as \<open>+0\<close>.
\<close>

datatype jsnum = Fin real | PInf | NInf | NaN

instantiation jsnum :: "{ord, plus, minus, times, inverse}"
begin

fun less_jsnum :: "jsnum \<Rightarrow> jsnum \<Rightarrow> bool" where
  "less_jsnum (Fin a) (Fin b) = (a < b)"
| "less_jsnum (Fin a) PInf = True"
| "less_jsnum NInf (Fin b) = True"
| "less_jsnum NInf PInf = True"
| "less_jsnum _ _ = False"

fun less_eq_jsnum :: "jsnum \<Rightarrow> jsnum \<Rightarrow> bool" where
  "less_eq_jsnum (Fin a) (Fin b) = (a \<le> b)"
| "less_eq_jsnum (Fin a) PInf = True"
| "less_eq_jsnum NInf (Fin b) = True"
| "less_eq_jsnum NInf PInf = True"
| "less_eq_jsnum NInf NInf = True"
| "less_eq_jsnum PInf PInf = True"
| "less_eq_jsnum _ _ = False"

fun plus_jsnum :: "jsnum \<Rightarrow> jsnum \<Rightarrow> jsnum" where
  "plus_jsnum (Fin a) (Fin b) = Fin (a + b)"
| "plus_jsnum NaN _ = NaN"
| "plus_jsnum _ NaN = NaN"
| "plus_jsnum PInf NInf = NaN"
| "plus_jsnum NInf PInf = NaN"
| "plus_jsnum PInf _ = PInf"
| "plus_jsnum NInf _ = NInf"
| "plus_jsnum (Fin a) b = b"

fun minus_jsnum :: "jsnum \<Rightarrow> jsnum \<Rightarrow> jsnum" where
  "minus_jsnum (Fin a) (Fin b) = Fin (a - b)"
| "minus_jsnum NaN _ = NaN"
| "minus_jsnum _ NaN = NaN"
| "minus_jsnum PInf PInf = NaN"
| "minus_jsnum NInf NInf = NaN"
| "minus_jsnum PInf _ = PInf"
| "minus_jsnum NInf _ = NInf"
| "minus_jsnum (Fin a) PInf = NInf"
| "minus_jsnum (Fin a) NInf = PInf"

fun times_jsnum :: "jsnum \<Rightarrow> jsnum \<Rightarrow> jsnum" where
  "times_jsnum (Fin a) (Fin b) = Fin (a * b)"
| "times_jsnum NaN _ = NaN"
| "times_jsnum _ NaN = NaN"
| "times_jsnum (Fin a) PInf = (if a = 0 then NaN else if 0 < a then PInf else NInf)"
| "times_jsnum (Fin a) NInf = (if a = 0 then NaN else if 0 < a then NInf else PInf)"
| "times_jsnum PInf (Fin b) = (if b = 0 then NaN else if 0 < b then PInf else NInf)"
| "times_jsnum NInf (Fin b) = (if b = 0 then NaN else if 0 < b then NInf else PInf)"
| "times_jsnum PInf PInf = PInf"
| "times_jsnum NInf NInf = PInf"
| "times_jsnum PInf NInf = NInf"
| "times_jsnum NInf PInf = NInf"

fun divide_jsnum :: "jsnum \<Rightarrow> jsnum \<Rightarrow> jsnum" where
  "divide_jsnum (Fin a) (Fin b) =
     (if b = 0 then (if a = 0 then NaN else if 0 < a then PInf else NInf)
      else Fin (a / b))"
| "divide_jsnum NaN _ = NaN"
| "divide_jsnum _ NaN = NaN"
| "divide_jsnum (Fin a) _ = Fin 0"
| "divide_jsnum PInf (Fin b) = (if 0 \<le> b then PInf else NInf)"
| "divide_jsnum NInf (Fin b) = (if 0 \<le> b then NInf else PInf)"
| "divide_jsnum PInf PInf = NaN"
| "divide_jsnum PInf NInf = NaN"
| "divide_jsnum NInf PInf = NaN"
| "divide_jsnum NInf NInf = NaN"

definition inverse_jsnum :: "jsnum \<Rightarrow> jsnum" where
  "inverse_jsnum a = divide (Fin 1) a"

instance ..

end

text \<open>\<open>Math.abs\<close>, \<open>Math.sqrt\<close> and \<open>Math.acos\<close>.\<close>

fun Math_abs :: "jsnum \<Rightarrow> jsnum" where
  "Math_abs (Fin a) = Fin \<bar>a\<bar>"
| "Math_abs PInf = PInf"
| "Math_abs NInf = PInf"
| "Math_abs NaN = NaN"

fun Math_sqrt :: "jsnum \<Rightarrow> jsnum" where
  "Math_sqrt (Fin a) = (if a < 0 then NaN else Fin (sqrt a))"
| "Math_sqrt PInf = PInf"
| "Math_sqrt NInf = NaN"
| "Math_sqrt NaN = NaN"

fun Math_acos :: "jsnum \<Rightarrow> jsnum" where
  "Math_acos (Fin a) = (if a < - 1 \<or> 1 < a then NaN else Fin (arccos a))"
| "Math_acos _ = NaN"

text \<open>
  \<open>Math.max(...vs)\<close> and \<open>Math.min(...vs)\<close>: \<open>-Infinity\<close> and \<open>Infinity\<close> without
  arguments, \<open>NaN\<close> as soon as one argument is \<open>NaN\<close>.
\<close>

fun max2 :: "jsnum \<Rightarrow> jsnum \<Rightarrow> jsnum" where
  "max2 NaN _ = NaN"
| "max2 _ NaN = NaN"
| "max2 a b = (if a < b then b else a)"

fun min2 :: "jsnum \<Rightarrow> jsnum \<Rightarrow> jsnum" where
  "min2 NaN _ = NaN"
| "min2 _ NaN = NaN"
| "min2 a b = (if b < a then b else a)"

fun Math_max :: "jsnum list \<Rightarrow> jsnum" where
  "Math_max [] = NInf"
| "Math_max (v # vs) = max2 v (Math_max vs)"

fun Math_min :: "jsnum list \<Rightarrow> jsnum" where
  "Math_min [] = PInf"
| "Math_min (v # vs) = min2 v (Math_min vs)"

section \<open>Face shapes and the hairstyle catalog\<close>

datatype FaceShape = OVAL | ROUND | SQUARE | HEART | LONG | DIAMOND

text \<open>
  The enum members are strings at run time: \<open>FaceShape.OVAL = 'oval'\<close> and so on.
\<close>

fun shape_key :: "FaceShape \<Rightarrow> string" where
  "shape_key OVAL = ''oval''"
| "shape_key ROUND = ''round''"
| "shape_key SQUARE = ''square''"
| "shape_key HEART = ''heart''"
| "shape_key LONG = ''long''"
| "shape_key DIAMOND = ''diamond''"

text \<open>
  The constant \<open>faceShapeToHairstyles\<close> is an object literal; these are its own
  properties, in the order they are written.
\<close>

definition faceShapeToHairstyles :: "(string \<times> nat list) list" where
  "faceShapeToHairstyles =
     [(shape_key OVAL, [1, 3, 5, 7]),
      (shape_key ROUND, [2, 6, 9]),
      (shape_key SQUARE, [1, 5, 8]),
      (shape_key HEART, [3, 7, 9]),
      (shape_key LONG, [2, 4, 8]),
      (shape_key DIAMOND, [1, 3, 6])]"

text \<open>
  An object literal inherits from \<open>Object.prototype\<close>. A property read that finds no own
  property finds the names below there: the methods of \<open>Object.prototype\<close> and the
  accessor \<open>__proto__\<close>, as ECMAScript defines them. Each of them reads as a function or an
  object, so as a truthy value.
\<close>

definition Object_prototype :: "string list" where
  "Object_prototype =
     [''constructor'', ''hasOwnProperty'', ''isPrototypeOf'', ''propertyIsEnumerable'',
      ''toLocaleString'', ''toString'', ''valueOf'', ''__proto__'',
      ''__defineGetter__'', ''__defineSetter__'', ''__lookupGetter__'', ''__lookupSetter__'']"

text \<open>
  What the caller passes: the parameter is declared \<open>FaceShape\<close>, which the compiled
  code does not check, so at run time it is any string, \<open>undefined\<close> or \<open>null\<close>. Used
  as a property name, \<open>undefined\<close> and \<open>null\<close> become the strings of their names.
\<close>

datatype argument = Text string | Undefined | Null

fun property_name :: "argument \<Rightarrow> string" where
  "property_name (Text key) = key"
| "property_name Undefined = ''undefined''"
| "property_name Null = ''null''"

text \<open>
  What a property read of \<open>faceShapeToHairstyles\<close> yields: one of its arrays, a value
  inherited from \<open>Object.prototype\<close> (named by its property), or \<open>undefined\<close> (\<open>None\<close>).
\<close>

datatype property = Ids "nat list" | Inherited string

definition read_property :: "string \<Rightarrow> property option" where
  "read_property key =
     (case map_of faceShapeToHairstyles key of
        Some ids \<Rightarrow> Some (Ids ids)
      | None \<Rightarrow> if key \<in> set Object_prototype then Some (Inherited key) else None)"

text \<open>
  \<open>getRecommendedHairstyles\<close> is \<open>faceShapeToHairstyles[faceShape] || []\<close>. An array,
  a function and an object are truthy, so \<open>||\<close> takes the empty array only when the read
  is \<open>undefined\<close>. Nothing in it throws.
\<close>

definition getRecommendedHairstyles :: "argument \<Rightarrow> property" where
  "getRecommendedHairstyles faceShape =
     (case read_property (property_name faceShape) of
        Some found \<Rightarrow> found
      | None \<Rightarrow> Ids [])"

section \<open>Landmarks and measurement derivation\<close>

text \<open>
  A \<open>Point\<close> is \<open>{x: number, y: number}\<close>; the fields are called \<open>px\<close> and \<open>py\<close>
  here. The landmark object answers \<open>getJawOutline()\<close>, \<open>getLeftEye()\<close>,
  \<open>getRightEye()\<close>, \<open>getNose()\<close> and \<open>getMouth()\<close>, each with an array of points; a
  group that is missing (the call yields \<open>undefined\<close> or \<open>null\<close>) is \<open>None\<close>.
\<close>

record Point =
  px :: jsnum
  py :: jsnum

record Landmarks =
  getJawOutline :: "Point list option"
  getLeftEye :: "Point list option"
  getRightEye :: "Point list option"
  getNose :: "Point list option"
  getMouth :: "Point list option"

datatype error = TypeError

text \<open>
  \<open>jawLine[i]\<close> is \<open>undefined\<close> past the end of the array, and reading \<open>.x\<close> or \<open>.y\<close> of
  \<open>undefined\<close> throws a \<open>TypeError\<close>. In \<open>measurements\<close> below, \<open>None\<close> is that throw.
\<close>

definition item :: "'a list \<Rightarrow> nat \<Rightarrow> 'a option" where
  "item xs i = (if i < length xs then Some (xs ! i) else None)"

record Measurements =
  faceWidth :: jsnum
  faceHeight :: jsnum
  widthToHeightRatio :: jsnum
  jawToForeheadRatio :: jsnum
  foreheadToJawRatio :: jsnum
  upperToLowerFaceWidthRatio :: jsnum
  topThirdWidth :: jsnum
  midThirdWidth :: jsnum
  bottomThirdWidth :: jsnum
  chinRatio :: jsnum
  cheekFullness :: jsnum
  cheekCurvature :: jsnum
  faceCircularity :: jsnum
  roundnessCoefficient :: jsnum
  jawAngle :: jsnum
  jawRoundness :: jsnum
  chinPointedness :: jsnum
  faceTapering :: jsnum

text \<open>
  Lines 117 to 233 of \<open>detectFaceShape\<close>, in the order of the source. The statements after
  the validity check of line 163 read no new property and cannot throw, so they are
  computed here together with the ones before it; the check itself is in \<open>derive\<close>.
  \<open>landmarks.getMouth().map(...)\<close> throws when the mouth group is missing.
\<close>

definition measurements ::
  "Point list \<Rightarrow> Point list \<Rightarrow> Point list \<Rightarrow> Point list option \<Rightarrow> Measurements option" where
  "measurements jawLine leftEye rightEye mouthGroup = do {
     cheekPointLeft \<leftarrow> item jawLine 1;
     cheekPointRight \<leftarrow> item jawLine 15;
     let faceWidthAtCheeks = px cheekPointRight - px cheekPointLeft;
     let faceCenterX = (px cheekPointLeft + px cheekPointRight) / Fin 2;
     midCheekLeft \<leftarrow> item jawLine 2;
     midCheekRight \<leftarrow> item jawLine 14;
     let cheekFullnessLeft = faceCenterX - px midCheekLeft;
     let cheekFullnessRight = px midCheekRight - faceCenterX;
     let cheekFullness = (cheekFullnessLeft + cheekFullnessRight) / faceWidthAtCheeks;
     let faceWidth = Math_max (map px jawLine) - Math_min (map px jawLine);
     let foreheadTop = Math_min (map py (leftEye @ rightEye)) - Fin 20;
     jawBottom \<leftarrow> item jawLine 8;
     let chinBottom = py jawBottom;
     let faceHeight = chinBottom - foreheadTop;
     let faceCircularity = Math_min [faceWidth, faceHeight] / Math_max [faceWidth, faceHeight];
     let roundnessCoefficient =
       (if Math_abs (faceWidth - faceHeight) < faceWidth * Fin 0.1 then Fin 2
        else Fin 1 * (Fin 1 - Math_abs (faceWidth - faceHeight) / faceWidth));
     jawCornerLeft \<leftarrow> item jawLine 3;
     jawCornerRight \<leftarrow> item jawLine 13;
     let cheekCurvatureLeft =
       Math_abs (py midCheekLeft - py jawCornerLeft) / (faceCenterX - px midCheekLeft);
     let cheekCurvatureRight =
       Math_abs (py midCheekRight - py jawCornerRight) / (px midCheekRight - faceCenterX);
     let cheekCurvature = (cheekCurvatureLeft + cheekCurvatureRight) / Fin 2;
     mouthPoints \<leftarrow> mouthGroup;
     let mouthBottom = Math_max (map py mouthPoints);
     let chinLength = chinBottom - mouthBottom;
     let chinRatio = chinLength / faceHeight;
     let jawWidth = px jawCornerRight - px jawCornerLeft;
     let eyeWidth = Math_max (map px rightEye) - Math_min (map px leftEye);
     let foreheadWidth = Math_max [eyeWidth * Fin 1.6, faceWidth * Fin 0.85];
     let upperFaceWidth = Math_max [foreheadWidth, faceWidth * Fin 0.9];
     let leftVector_x = px jawCornerLeft - px jawBottom;
     let leftVector_y = py jawCornerLeft - py jawBottom;
     let rightVector_x = px jawCornerRight - px jawBottom;
     let rightVector_y = py jawCornerRight - py jawBottom;
     let leftMagnitude = Math_sqrt (leftVector_x * leftVector_x + leftVector_y * leftVector_y);
     let rightMagnitude =
       Math_sqrt (rightVector_x * rightVector_x + rightVector_y * rightVector_y);
     let dotProduct = leftVector_x * rightVector_x + leftVector_y * rightVector_y;
     let cosAngle = dotProduct / (leftMagnitude * rightMagnitude);
     let jawAngle = Math_acos cosAngle * Fin (180 / pi);
     let jawRoundness = Fin 180 - jawAngle;
     Some \<lparr> faceWidth = faceWidth,
            faceHeight = faceHeight,
            widthToHeightRatio = faceWidth / faceHeight,
            jawToForeheadRatio = jawWidth / foreheadWidth,
            foreheadToJawRatio = foreheadWidth / jawWidth,
            upperToLowerFaceWidthRatio = upperFaceWidth / jawWidth,
            topThirdWidth = foreheadWidth,
            midThirdWidth = faceWidthAtCheeks,
            bottomThirdWidth = jawWidth,
            chinRatio = chinRatio,
            cheekFullness = cheekFullness,
            cheekCurvature = cheekCurvature,
            faceCircularity = faceCircularity,
            roundnessCoefficient = roundnessCoefficient,
            jawAngle = jawAngle,
            jawRoundness = jawRoundness,
            chinPointedness = jawAngle,
            faceTapering = (foreheadWidth - jawWidth) / foreheadWidth \<rparr>
   }"

section \<open>Scoring\<close>

text \<open>
  The score table is the object \<open>scores\<close>, keyed by the six shapes; every change the
  source makes to it adds or subtracts a whole number. \<open>bump k d\<close> is \<open>scores[k] += d\<close>.
\<close>

type_synonym Scores = "FaceShape \<Rightarrow> int"

definition initial_scores :: Scores where
  "initial_scores = (\<lambda>k. 0)"

definition bump :: "FaceShape \<Rightarrow> int \<Rightarrow> Scores \<Rightarrow> Scores" where
  "bump k d scores = scores(k := scores k + d)"

text \<open>The banded rules of lines 283 to 484, one definition per \<open>if\<close> cascade.\<close>

definition score_widthToHeight :: "Measurements \<Rightarrow> Scores \<Rightarrow> Scores" where
  "score_widthToHeight m scores =
     (if widthToHeightRatio m > Fin 0.95 then bump OVAL (- 3) (bump ROUND 5 scores)
      else if widthToHeightRatio m \<ge> Fin 0.85 \<and> widthToHeightRatio m \<le> Fin 0.95
        then bump OVAL (- 1) (bump ROUND 3 scores)
      else if widthToHeightRatio m \<ge> Fin 0.78 \<and> widthToHeightRatio m < Fin 0.85
        then bump ROUND 1 scores
      else if widthToHeightRatio m \<ge> Fin 0.67 \<and> widthToHeightRatio m < Fin 0.75
        then bump OVAL 2 scores
      else if widthToHeightRatio m \<le> Fin 0.67 \<and> widthToHeightRatio m \<ge> Fin 0.62
        then bump OVAL 1 (bump LONG 2 scores)
      else if widthToHeightRatio m < Fin 0.62 then bump OVAL (- 1) (bump LONG 4 scores)
      else scores)"

definition score_roundnessCoefficient :: "Measurements \<Rightarrow> Scores \<Rightarrow> Scores" where
  "score_roundnessCoefficient m scores =
     (if roundnessCoefficient m > Fin 0.85 then bump OVAL (- 3) (bump ROUND 8 scores)
      else if roundnessCoefficient m > Fin 0.75 then bump OVAL (- 2) (bump ROUND 5 scores)
      else if roundnessCoefficient m > Fin 0.65 then bump ROUND 2 scores
      else scores)"

definition score_faceCircularity :: "Measurements \<Rightarrow> Scores \<Rightarrow> Scores" where
  "score_faceCircularity m scores =
     (if faceCircularity m > Fin 0.95 then bump OVAL (- 3) (bump ROUND 7 scores)
      else if faceCircularity m > Fin 0.9 then bump OVAL (- 2) (bump ROUND 5 scores)
      else if faceCircularity m > Fin 0.85 then bump OVAL (- 1) (bump ROUND 3 scores)
      else scores)"

definition score_cheekCurvature :: "Measurements \<Rightarrow> Scores \<Rightarrow> Scores" where
  "score_cheekCurvature m scores =
     (if cheekCurvature m < Fin 0.4 then bump OVAL (- 2) (bump ROUND 4 scores)
      else if cheekCurvature m < Fin 0.6 then bump OVAL (- 1) (bump ROUND 2 scores)
      else scores)"

definition score_jawToForehead :: "Measurements \<Rightarrow> Scores \<Rightarrow> Scores" where
  "score_jawToForehead m scores =
     (if jawToForeheadRatio m > Fin 0.92 \<and> jawToForeheadRatio m < Fin 1.08
        then bump ROUND (if widthToHeightRatio m > Fin 0.85 then 1 else 0) (bump OVAL 1 scores)
      else if jawToForeheadRatio m \<ge> Fin 1.08 \<and> jawToForeheadRatio m < Fin 1.18
        then bump SQUARE 3 scores
      else if jawToForeheadRatio m \<ge> Fin 1.18 then bump SQUARE 4 scores
      else if jawToForeheadRatio m \<le> Fin 0.92 \<and> jawToForeheadRatio m > Fin 0.82
        then bump HEART 2 scores
      else if jawToForeheadRatio m \<le> Fin 0.82 \<and> jawToForeheadRatio m > Fin 0.72
        then bump HEART 3 scores
      else if jawToForeheadRatio m \<le> Fin 0.72 then bump HEART 4 scores
      else scores)"

definition score_foreheadToJaw :: "Measurements \<Rightarrow> Scores \<Rightarrow> Scores" where
  "score_foreheadToJaw m scores =
     (if foreheadToJawRatio m > Fin 1.15 \<and> foreheadToJawRatio m < Fin 1.3
        then bump HEART 2 scores
      else if foreheadToJawRatio m \<ge> Fin 1.3 then bump OVAL (- 1) (bump HEART 4 scores)
      else scores)"

definition score_upperToLower :: "Measurements \<Rightarrow> Scores \<Rightarrow> Scores" where
  "score_upperToLower m scores =
     (if upperToLowerFaceWidthRatio m > Fin 1.2 \<and> upperToLowerFaceWidthRatio m < Fin 1.35
        then bump HEART 2 scores
      else if upperToLowerFaceWidthRatio m \<ge> Fin 1.35
        then bump OVAL (- 2) (bump HEART 4 scores)
      else scores)"

definition score_faceTapering :: "Measurements \<Rightarrow> Scores \<Rightarrow> Scores" where
  "score_faceTapering m scores =
     (if faceTapering m > Fin 0.25 \<and> faceTapering m < Fin 0.35 then bump HEART 2 scores
      else if faceTapering m \<ge> Fin 0.35 then bump OVAL (- 1) (bump HEART 3 scores)
      else scores)"

definition score_chinPointedness :: "Measurements \<Rightarrow> Scores \<Rightarrow> Scores" where
  "score_chinPointedness m scores =
     (if chinPointedness m > Fin 65 \<and> chinPointedness m < Fin 75 then bump HEART 1 scores
      else if chinPointedness m \<ge> Fin 75 then bump HEART 2 scores
      else scores)"

definition score_diamond :: "Measurements \<Rightarrow> Scores \<Rightarrow> Scores" where
  "score_diamond m scores =
     (if midThirdWidth m > topThirdWidth m \<and> midThirdWidth m > bottomThirdWidth m then
        (let diamondRatio1 = midThirdWidth m / topThirdWidth m;
             diamondRatio2 = midThirdWidth m / bottomThirdWidth m
         in if diamondRatio1 > Fin 1.15 \<and> diamondRatio2 > Fin 1.15 then bump DIAMOND 4 scores
            else if diamondRatio1 > Fin 1.10 \<and> diamondRatio2 > Fin 1.10
              then bump DIAMOND 3 scores
            else if diamondRatio1 > Fin 1.05 \<and> diamondRatio2 > Fin 1.05
              then bump DIAMOND 1 scores
            else scores)
      else scores)"

definition score_squareWidths :: "Measurements \<Rightarrow> Scores \<Rightarrow> Scores" where
  "score_squareWidths m scores =
     (if Math_abs (topThirdWidth m - bottomThirdWidth m) < topThirdWidth m * Fin 0.10
        then bump SQUARE 2 scores
      else scores)"

definition score_heartWidths :: "Measurements \<Rightarrow> Scores \<Rightarrow> Scores" where
  "score_heartWidths m scores =
     (if topThirdWidth m > bottomThirdWidth m * Fin 1.2
         \<and> topThirdWidth m < bottomThirdWidth m * Fin 1.4
        then bump HEART 2 scores
      else if topThirdWidth m \<ge> bottomThirdWidth m * Fin 1.4
        then bump OVAL (- 1) (bump HEART 3 scores)
      else scores)"

definition score_ovalBalance :: "Measurements \<Rightarrow> Scores \<Rightarrow> Scores" where
  "score_ovalBalance m scores =
     (if Math_abs (jawToForeheadRatio m - Fin 1.0) < Fin 0.08
         \<and> widthToHeightRatio m > Fin 0.67 \<and> widthToHeightRatio m < Fin 0.75
        then bump OVAL 1 scores
      else scores)"

definition score_cheekFullness :: "Measurements \<Rightarrow> Scores \<Rightarrow> Scores" where
  "score_cheekFullness m scores =
     (if cheekFullness m > Fin 0.45 then bump OVAL (- 2) (bump ROUND 4 scores)
      else if cheekFullness m > Fin 0.4 \<and> cheekFullness m \<le> Fin 0.45
        then bump OVAL (- 1) (bump ROUND 2 scores)
      else if cheekFullness m > Fin 0.32 \<and> cheekFullness m \<le> Fin 0.37
        then bump OVAL 1 scores
      else if cheekFullness m < Fin 0.32 then bump LONG 1 (bump OVAL 1 scores)
      else scores)"

definition score_jawRoundness :: "Measurements \<Rightarrow> Scores \<Rightarrow> Scores" where
  "score_jawRoundness m scores =
     (if jawRoundness m < Fin 115
        then bump HEART 1 (bump ROUND (- 2) (bump OVAL 2 scores))
      else if jawRoundness m < Fin 125 then bump ROUND (- 1) (bump OVAL 1 scores)
      else if jawRoundness m > Fin 145
        then bump HEART (- 1) (bump OVAL (- 2) (bump ROUND 4 scores))
      else if jawRoundness m > Fin 135 \<and> jawRoundness m \<le> Fin 145
        then bump OVAL (- 1) (bump ROUND 2 scores)
      else scores)"

text \<open>The rules in the order of the source, starting from the table of zeros.\<close>

definition banded_scores :: "Measurements \<Rightarrow> Scores" where
  "banded_scores m =
     (score_jawRoundness m o score_cheekFullness m o score_ovalBalance m
      o score_heartWidths m o score_squareWidths m o score_diamond m
      o score_chinPointedness m o score_faceTapering m o score_upperToLower m
      o score_foreheadToJaw m o score_jawToForehead m o score_cheekCurvature m
      o score_faceCircularity m o score_roundnessCoefficient m o score_widthToHeight m)
     initial_scores"

text \<open>
  Lines 486 to 551: the definitive heart check, the definitive round check and the chin
  ratio check, one \<open>if\<close> / \<open>else if\<close> chain.
\<close>

definition definitive_heart :: "Measurements \<Rightarrow> bool" where
  "definitive_heart m \<longleftrightarrow>
     (foreheadToJawRatio m \<ge> Fin 1.4 \<and> faceTapering m \<ge> Fin 0.3)
     \<or> (faceTapering m \<ge> Fin 0.4 \<and> foreheadToJawRatio m \<ge> Fin 1.25)"

definition definitive_round :: "Measurements \<Rightarrow> bool" where
  "definitive_round m \<longleftrightarrow>
     (faceCircularity m > Fin 0.95 \<and> roundnessCoefficient m > Fin 0.85)
     \<or> (widthToHeightRatio m > Fin 0.95 \<and> cheekFullness m > Fin 0.45)"

definition only :: "FaceShape \<Rightarrow> Scores" where
  "only winner = (\<lambda>k. 0)(winner := 100)"

definition score_definitive :: "Measurements \<Rightarrow> Scores \<Rightarrow> Scores" where
  "score_definitive m scores =
     (if definitive_heart m then only HEART
      else if definitive_round m then only ROUND
      else if chinRatio m \<ge> Fin 0.17 then bump OVAL 15 scores
      else if chinRatio m < Fin 0.10 then bump OVAL (- 3) (bump ROUND 5 scores)
      else if chinRatio m \<ge> Fin 0.10 \<and> chinRatio m < Fin 0.12
        then bump OVAL (- 1) (bump ROUND 3 scores)
      else if chinRatio m \<ge> Fin 0.12 \<and> chinRatio m < Fin 0.15 then bump OVAL 1 scores
      else if chinRatio m \<ge> Fin 0.15 \<and> chinRatio m < Fin 0.17 then bump OVAL 2 scores
      else scores)"

definition final_scores :: "Measurements \<Rightarrow> Scores" where
  "final_scores m = score_definitive m (banded_scores m)"

section \<open>Winner selection and tie-breaks\<close>

text \<open>
  \<open>Object.entries(scores)\<close> lists the table in the order its keys were written: oval,
  round, square, heart, long, diamond.
\<close>

definition entries :: "Scores \<Rightarrow> (FaceShape \<times> int) list" where
  "entries scores = map (\<lambda>shape. (shape, scores shape)) [OVAL, ROUND, SQUARE, HEART, LONG, DIAMOND]"

text \<open>The loop of lines 557 to 563, started with \<open>maxScore = 0\<close> and \<open>detectedShape = OVAL\<close>.\<close>

fun find_highest :: "int \<Rightarrow> FaceShape \<Rightarrow> (FaceShape \<times> int) list \<Rightarrow> int \<times> FaceShape" where
  "find_highest maxScore detectedShape [] = (maxScore, detectedShape)"
| "find_highest maxScore detectedShape ((shape, score) # rest) =
     (if score > maxScore then find_highest score shape rest
      else find_highest maxScore detectedShape rest)"

text \<open>
  \<open>Object.entries(scores).sort((a, b) => b[1] - a[1])\<close>: a stable sort by falling score
  (\<open>Array.prototype.sort\<close> keeps the order of entries that compare equal).
\<close>

definition sortedScores :: "Scores \<Rightarrow> (FaceShape \<times> int) list" where
  "sortedScores scores = sort_key (\<lambda>(shape, score). - score) (entries scores)"

definition close_pair :: "FaceShape \<Rightarrow> FaceShape \<Rightarrow> FaceShape \<Rightarrow> FaceShape \<Rightarrow> bool" where
  "close_pair a b topShape secondShape \<longleftrightarrow>
     (topShape = a \<and> secondShape = b) \<or> (topShape = b \<and> secondShape = a)"

text \<open>The four cascades of lines 578 to 665; each takes and returns \<open>detectedShape\<close>.\<close>

definition decide_oval_heart :: "Measurements \<Rightarrow> FaceShape \<Rightarrow> FaceShape" where
  "decide_oval_heart m detectedShape =
     (if foreheadToJawRatio m > Fin 1.22 then HEART
      else if faceTapering m > Fin 0.28 then HEART
      else if upperToLowerFaceWidthRatio m > Fin 1.18 then HEART
      else if chinPointedness m > Fin 68 then HEART
      else if Math_abs (jawToForeheadRatio m - Fin 1.0) < Fin 0.12 \<and> chinRatio m > Fin 0.15
        then OVAL
      else detectedShape)"

definition decide_oval_round :: "Measurements \<Rightarrow> FaceShape \<Rightarrow> FaceShape" where
  "decide_oval_round m detectedShape =
     (if widthToHeightRatio m > Fin 0.8 then ROUND
      else if widthToHeightRatio m < Fin 0.7 then OVAL
      else if jawRoundness m > Fin 130 then ROUND
      else if faceCircularity m > Fin 0.87 then ROUND
      else if roundnessCoefficient m > Fin 0.7 then ROUND
      else if chinRatio m > Fin 0.16 then OVAL
      else if cheekFullness m < Fin 0.33 then OVAL
      else if cheekFullness m > Fin 0.38 then ROUND
      else ROUND)"

definition decide_oval_long :: "Measurements \<Rightarrow> FaceShape \<Rightarrow> FaceShape" where
  "decide_oval_long m detectedShape =
     (if widthToHeightRatio m < Fin 0.65 then LONG
      else if widthToHeightRatio m > Fin 0.72 then OVAL
      else LONG)"

definition decide_oval_square :: "Measurements \<Rightarrow> FaceShape \<Rightarrow> FaceShape" where
  "decide_oval_square m detectedShape =
     (if jawToForeheadRatio m > Fin 1.05 then SQUARE
      else if Math_abs (topThirdWidth m - bottomThirdWidth m) < topThirdWidth m * Fin 0.12
        then SQUARE
      else detectedShape)"

definition tiebreak ::
  "Measurements \<Rightarrow> FaceShape \<times> int \<Rightarrow> FaceShape \<times> int \<Rightarrow> FaceShape \<Rightarrow> FaceShape" where
  "tiebreak m topShape secondShape detectedShape =
     (if snd secondShape > 0 \<and> snd topShape - snd secondShape \<le> 3 then
        (let d1 = (if close_pair OVAL HEART (fst topShape) (fst secondShape)
                   then decide_oval_heart m detectedShape else detectedShape);
             d2 = (if close_pair OVAL ROUND (fst topShape) (fst secondShape)
                   then decide_oval_round m d1 else d1);
             d3 = (if close_pair OVAL LONG (fst topShape) (fst secondShape)
                   then decide_oval_long m d2 else d2)
         in if close_pair OVAL SQUARE (fst topShape) (fst secondShape)
            then decide_oval_square m d3 else d3)
      else detectedShape)"

text \<open>Lines 553 to 676: the label computed from the measurements and the final table.\<close>

definition select_shape :: "Measurements \<Rightarrow> Scores \<Rightarrow> FaceShape" where
  "select_shape m scores =
     (let (maxScore, detectedShape) = find_highest 0 OVAL (entries scores);
          topShape = sortedScores scores ! 0;
          secondShape = sortedScores scores ! 1;
          detectedShape = tiebreak m topShape secondShape detectedShape
      in if maxScore = 0 then ROUND else detectedShape)"

definition decide :: "Measurements \<Rightarrow> FaceShape" where
  "decide m = select_shape m (final_scores m)"

section \<open>The classifier\<close>

text \<open>
  \<open>derive\<close> is the part of the \<open>try\<close> block from the landmark reads to the validity
  check: \<open>Inr None\<close> is \<open>return null\<close>, \<open>Inl TypeError\<close> a throw, \<open>Inr (Some m)\<close> the
  measurements with which scoring starts. The nose group is read and not used.
\<close>

definition derive :: "Landmarks \<Rightarrow> error + Measurements option" where
  "derive landmarks =
     (let nose = getNose landmarks in
      case (getJawOutline landmarks, getLeftEye landmarks, getRightEye landmarks) of
        (Some jawLine, Some leftEye, Some rightEye) \<Rightarrow>
          (case measurements jawLine leftEye rightEye (getMouth landmarks) of
             None \<Rightarrow> Inl TypeError
           | Some m \<Rightarrow>
               if faceWidth m \<le> Fin 0 \<or> faceHeight m \<le> Fin 0 then Inr None
               else Inr (Some m))
      | _ \<Rightarrow> Inr None)"

definition detect_try :: "Landmarks \<Rightarrow> error + FaceShape option" where
  "detect_try landmarks =
     (case derive landmarks of
        Inl e \<Rightarrow> Inl e
      | Inr None \<Rightarrow> Inr None
      | Inr (Some m) \<Rightarrow> Inr (Some (decide m)))"

text \<open>
  \<open>detectFaceShape\<close>, from the landmarks on: the \<open>catch\<close> clause turns every throw of the
  \<open>try\<close> block into \<open>return null\<close>. \<open>None\<close> is \<open>null\<close>.
\<close>

definition detectFaceShape :: "Landmarks \<Rightarrow> FaceShape option" where
  "detectFaceShape landmarks =
     (case detect_try landmarks of Inl e \<Rightarrow> None | Inr result \<Rightarrow> result)"

text \<open>
  Lines 185 to 211 on their own: the angle at the chin \<open>jawBottom\<close> between the vectors
  to the two jaw corners, in degrees.
\<close>

definition chin_angle :: "Point \<Rightarrow> Point \<Rightarrow> Point \<Rightarrow> jsnum" where
  "chin_angle jawLeftCorner jawRightCorner jawBottom =
     (let leftVector_x = px jawLeftCorner - px jawBottom;
          leftVector_y = py jawLeftCorner - py jawBottom;
          rightVector_x = px jawRightCorner - px jawBottom;
          rightVector_y = py jawRightCorner - py jawBottom;
          leftMagnitude = Math_sqrt (leftVector_x * leftVector_x + leftVector_y * leftVector_y);
          rightMagnitude =
            Math_sqrt (rightVector_x * rightVector_x + rightVector_y * rightVector_y);
          dotProduct = leftVector_x * rightVector_x + leftVector_y * rightVector_y;
          cosAngle = dotProduct / (leftMagnitude * rightMagnitude)
      in Math_acos cosAngle * Fin (180 / pi))"

text \<open>What a rule adds to the round score of the table of zeros.\<close>

definition round_gain :: "(Scores \<Rightarrow> Scores) \<Rightarrow> int" where
  "round_gain rule = rule initial_scores ROUND"

text \<open>What the chin ratio bands of the definitive chain add to the round score.\<close>

definition chin_round_gain :: "jsnum \<Rightarrow> int" where
  "chin_round_gain c =
     (if c \<ge> Fin 0.17 then 0
      else if c < Fin 0.10 then 5
      else if c \<ge> Fin 0.10 \<and> c < Fin 0.12 then 3
      else 0)"

section \<open>Sample landmark sets\<close>

text \<open>
  Concrete inputs on which the theorems below are exercised. The four faces share the
  eyes and the mouth and differ in the jaw line; in each of them the vectors from the chin
  to the two jaw corners are perpendicular, except in \<open>degenerate_face\<close>, whose left jaw
  corner \<open>jawLine[3]\<close> coincides with the chin \<open>jawLine[8]\<close>. Each
  \<open>_measurements\<close> record is what \<open>measurements\<close> computes for the face of the same
  name (lemma \<open>sample_derivations\<close>).
\<close>

definition pt :: "real \<Rightarrow> real \<Rightarrow> Point" where
  "pt a b = \<lparr> px = Fin a, py = Fin b \<rparr>"

definition sample_leftEye :: "Point list" where
  "sample_leftEye =
     [pt 70 82, pt 76 80, pt 82 80, pt 88 82, pt 82 84, pt 76 84]"

definition sample_rightEye :: "Point list" where
  "sample_rightEye =
     [pt 112 82, pt 118 80, pt 124 80, pt 130 82, pt 124 84, pt 118 84]"

definition sample_mouth :: "Point list" where
  "sample_mouth =
     [pt 80 190, pt 100 186, pt 120 190, pt 100 200]"

definition tie_jaw :: "Point list" where
  "tie_jaw =
     [pt 38 100, pt 45 120, pt 80 180, pt 60 200, pt 68 208, pt 76 216, pt 84 224,
      pt 92 232, pt 100 240, pt 108 232, pt 116 224, pt 124 216, pt 132 208,
      pt 140 200, pt 120 180, pt 155 120, pt 162 100]"

definition tie_face :: Landmarks where
  "tie_face =
     \<lparr> getJawOutline = Some tie_jaw, getLeftEye = Some sample_leftEye,
       getRightEye = Some sample_rightEye, getNose = None, getMouth = Some sample_mouth \<rparr>"

definition tie_measurements :: Measurements where
  "tie_measurements =
     \<lparr> faceWidth = Fin 124, faceHeight = Fin 180, widthToHeightRatio = Fin (31 / 45),
       jawToForeheadRatio = Fin (400 / 527), foreheadToJawRatio = Fin (527 / 400),
       upperToLowerFaceWidthRatio = Fin (279 / 200), topThirdWidth = Fin (527 / 5),
       midThirdWidth = Fin 110, bottomThirdWidth = Fin 80, chinRatio = Fin (2 / 9),
       cheekFullness = Fin (4 / 11), cheekCurvature = Fin 1,
       faceCircularity = Fin (31 / 45), roundnessCoefficient = Fin (17 / 31),
       jawAngle = Fin 90, jawRoundness = Fin 90, chinPointedness = Fin 90,
       faceTapering = Fin (127 / 527) \<rparr>"

definition heart_jaw :: "Point list" where
  "heart_jaw =
     [pt 38 100, pt 45 120, pt 80 180, pt 70 210, pt 76 216, pt 82 222, pt 88 228,
      pt 94 234, pt 100 240, pt 106 234, pt 112 228, pt 118 222, pt 124 216,
      pt 130 210, pt 120 180, pt 155 120, pt 162 100]"

definition heart_face :: Landmarks where
  "heart_face =
     \<lparr> getJawOutline = Some heart_jaw, getLeftEye = Some sample_leftEye,
       getRightEye = Some sample_rightEye, getNose = None, getMouth = Some sample_mouth \<rparr>"

definition heart_measurements :: Measurements where
  "heart_measurements =
     \<lparr> faceWidth = Fin 124, faceHeight = Fin 180, widthToHeightRatio = Fin (31 / 45),
       jawToForeheadRatio = Fin (300 / 527), foreheadToJawRatio = Fin (527 / 300),
       upperToLowerFaceWidthRatio = Fin (93 / 50), topThirdWidth = Fin (527 / 5),
       midThirdWidth = Fin 110, bottomThirdWidth = Fin 60, chinRatio = Fin (2 / 9),
       cheekFullness = Fin (4 / 11), cheekCurvature = Fin (3 / 2),
       faceCircularity = Fin (31 / 45), roundnessCoefficient = Fin (17 / 31),
       jawAngle = Fin 90, jawRoundness = Fin 90, chinPointedness = Fin 90,
       faceTapering = Fin (227 / 527) \<rparr>"

definition degenerate_jaw :: "Point list" where
  "degenerate_jaw =
     [pt 38 100, pt 45 120, pt 80 180, pt 100 240, pt 68 208, pt 76 216, pt 84 224,
      pt 92 232, pt 100 240, pt 108 232, pt 116 224, pt 124 216, pt 132 208,
      pt 140 200, pt 120 180, pt 155 120, pt 162 100]"

definition degenerate_face :: Landmarks where
  "degenerate_face =
     \<lparr> getJawOutline = Some degenerate_jaw, getLeftEye = Some sample_leftEye,
       getRightEye = Some sample_rightEye, getNose = None, getMouth = Some sample_mouth \<rparr>"

definition degenerate_measurements :: Measurements where
  "degenerate_measurements =
     \<lparr> faceWidth = Fin 124, faceHeight = Fin 180, widthToHeightRatio = Fin (31 / 45),
       jawToForeheadRatio = Fin (200 / 527), foreheadToJawRatio = Fin (527 / 200),
       upperToLowerFaceWidthRatio = Fin (279 / 100), topThirdWidth = Fin (527 / 5),
       midThirdWidth = Fin 110, bottomThirdWidth = Fin 40, chinRatio = Fin (2 / 9),
       cheekFullness = Fin (4 / 11), cheekCurvature = Fin 2,
       faceCircularity = Fin (31 / 45), roundnessCoefficient = Fin (17 / 31),
       jawAngle = NaN, jawRoundness = NaN, chinPointedness = NaN,
       faceTapering = Fin (327 / 527) \<rparr>"

definition plain_jaw :: "Point list" where
  "plain_jaw =
     [pt 38 100, pt 45 120, pt 80 180, pt 50 190, pt 60 200, pt 70 210, pt 80 220,
      pt 90 230, pt 100 240, pt 110 230, pt 120 220, pt 130 210, pt 140 200,
      pt 150 190, pt 120 180, pt 155 120, pt 162 100]"

definition plain_face :: Landmarks where
  "plain_face =
     \<lparr> getJawOutline = Some plain_jaw, getLeftEye = Some sample_leftEye,
       getRightEye = Some sample_rightEye, getNose = None, getMouth = Some sample_mouth \<rparr>"

definition plain_measurements :: Measurements where
  "plain_measurements =
     \<lparr> faceWidth = Fin 124, faceHeight = Fin 180, widthToHeightRatio = Fin (31 / 45),
       jawToForeheadRatio = Fin (500 / 527), foreheadToJawRatio = Fin (527 / 500),
       upperToLowerFaceWidthRatio = Fin (279 / 250), topThirdWidth = Fin (527 / 5),
       midThirdWidth = Fin 110, bottomThirdWidth = Fin 100, chinRatio = Fin (2 / 9),
       cheekFullness = Fin (4 / 11), cheekCurvature = Fin (1 / 2),
       faceCircularity = Fin (31 / 45), roundnessCoefficient = Fin (17 / 31),
       jawAngle = Fin 90, jawRoundness = Fin 90, chinPointedness = Fin 90,
       faceTapering = Fin (27 / 527) \<rparr>"

text \<open>A landmark set whose coordinates are all \<open>NaN\<close>, and two malformed ones.\<close>

definition nan_points :: "nat \<Rightarrow> Point list" where
  "nan_points n = replicate n \<lparr> px = NaN, py = NaN \<rparr>"

definition nan_face :: Landmarks where
  "nan_face =
     \<lparr> getJawOutline = Some (nan_points 17), getLeftEye = Some (nan_points 6),
       getRightEye = Some (nan_points 6), getNose = None, getMouth = Some (nan_points 20) \<rparr>"

definition nan_measurements :: Measurements where
  "nan_measurements =
     \<lparr> faceWidth = NaN, faceHeight = NaN, widthToHeightRatio = NaN,
       jawToForeheadRatio = NaN, foreheadToJawRatio = NaN,
       upperToLowerFaceWidthRatio = NaN, topThirdWidth = NaN, midThirdWidth = NaN,
       bottomThirdWidth = NaN, chinRatio = NaN, cheekFullness = NaN, cheekCurvature = NaN,
       faceCircularity = NaN, roundnessCoefficient = NaN, jawAngle = NaN,
       jawRoundness = NaN, chinPointedness = NaN, faceTapering = NaN \<rparr>"

definition empty_jaw_face :: Landmarks where
  "empty_jaw_face = plain_face \<lparr> getJawOutline := Some [] \<rparr>"

definition low_eyes_face :: Landmarks where
  "low_eyes_face =
     plain_face \<lparr> getLeftEye := Some [pt 70 300], getRightEye := Some [pt 130 300] \<rparr>"

section \<open>The recommendation lookup\<close>

text \<open>
  C7 (as the specification states it, refuted). The specification says that the lookup
  returns an empty sequence for every unknown shape. The string \<open>constructor\<close> is none of
  the six shapes, and for it the lookup returns the function that the catalog object
  inherits from \<open>Object.prototype\<close>, not an empty sequence.
\<close>

theorem recommend_inherited_name:
  "''constructor'' \<notin> set (map shape_key [OVAL, ROUND, SQUARE, HEART, LONG, DIAMOND])
   \<and> getRecommendedHairstyles (Text ''constructor'') = Inherited ''constructor''
   \<and> getRecommendedHairstyles (Text ''constructor'') \<noteq> Ids []"
  by (simp add: getRecommendedHairstyles_def read_property_def faceShapeToHairstyles_def
      Object_prototype_def)

text \<open>
  C7 (amended). For each of the six face shapes \<open>getRecommendedHairstyles\<close> returns the
  catalog's sequence, in order, and that sequence is not empty: oval 1,3,5,7; round 2,6,9;
  square 1,5,8; heart 3,7,9; long 2,4,8; diamond 1,3,6. For an absent shape (\<open>undefined\<close>
  or \<open>null\<close>), and for every string that names neither a catalog entry nor a property of
  \<open>Object.prototype\<close>, it returns the empty sequence. The function is total: it has no
  failing branch.
\<close>

theorem recommend_matches_catalog:
  "getRecommendedHairstyles (Text (shape_key OVAL)) = Ids [1, 3, 5, 7]
   \<and> getRecommendedHairstyles (Text (shape_key ROUND)) = Ids [2, 6, 9]
   \<and> getRecommendedHairstyles (Text (shape_key SQUARE)) = Ids [1, 5, 8]
   \<and> getRecommendedHairstyles (Text (shape_key HEART)) = Ids [3, 7, 9]
   \<and> getRecommendedHairstyles (Text (shape_key LONG)) = Ids [2, 4, 8]
   \<and> getRecommendedHairstyles (Text (shape_key DIAMOND)) = Ids [1, 3, 6]
   \<and> (\<exists>ids. getRecommendedHairstyles (Text (shape_key s)) = Ids ids \<and> ids \<noteq> []
          \<and> map_of faceShapeToHairstyles (shape_key s) = Some ids)
   \<and> getRecommendedHairstyles Undefined = Ids []
   \<and> getRecommendedHairstyles Null = Ids []
   \<and> (key \<notin> set (map fst faceShapeToHairstyles) \<and> key \<notin> set Object_prototype
        \<longrightarrow> getRecommendedHairstyles (Text key) = Ids [])"
proof -
  have known: "\<exists>ids. getRecommendedHairstyles (Text (shape_key s)) = Ids ids \<and> ids \<noteq> []
          \<and> map_of faceShapeToHairstyles (shape_key s) = Some ids"
    by (cases s)
      (simp_all add: getRecommendedHairstyles_def read_property_def faceShapeToHairstyles_def)
  have unknown: "getRecommendedHairstyles (Text key) = Ids []"
    if "key \<notin> set (map fst faceShapeToHairstyles)" "key \<notin> set Object_prototype"
  proof -
    from that(1) have "map_of faceShapeToHairstyles key = None"
      by (simp add: map_of_eq_None_iff)
    with that(2) show ?thesis
      by (simp add: getRecommendedHairstyles_def read_property_def)
  qed
  have six: "getRecommendedHairstyles (Text (shape_key OVAL)) = Ids [1, 3, 5, 7]"
    "getRecommendedHairstyles (Text (shape_key ROUND)) = Ids [2, 6, 9]"
    "getRecommendedHairstyles (Text (shape_key SQUARE)) = Ids [1, 5, 8]"
    "getRecommendedHairstyles (Text (shape_key HEART)) = Ids [3, 7, 9]"
    "getRecommendedHairstyles (Text (shape_key LONG)) = Ids [2, 4, 8]"
    "getRecommendedHairstyles (Text (shape_key DIAMOND)) = Ids [1, 3, 6]"
    by (simp_all add: getRecommendedHairstyles_def read_property_def faceShapeToHairstyles_def)
  have absent: "getRecommendedHairstyles Undefined = Ids []"
    "getRecommendedHairstyles Null = Ids []"
    by (simp_all add: getRecommendedHairstyles_def read_property_def faceShapeToHairstyles_def
        Object_prototype_def)
  from six known absent unknown show ?thesis by blast
qed

theorem recommend_matches_catalog_witness:
  "''triangle'' \<notin> set (map fst faceShapeToHairstyles)
   \<and> ''triangle'' \<notin> set Object_prototype
   \<and> getRecommendedHairstyles (Text ''triangle'') = Ids []
   \<and> getRecommendedHairstyles (Text ''heart'') = Ids [3, 7, 9]"
proof -
  have own: "''triangle'' \<notin> set (map fst faceShapeToHairstyles)"
    by (simp add: faceShapeToHairstyles_def)
  have inherited: "''triangle'' \<notin> set Object_prototype"
    by (simp add: Object_prototype_def)
  from recommend_matches_catalog [of HEART "''triangle''"] own inherited
  show ?thesis by simp
qed

section \<open>The winner loop and the head of the ranking\<close>

lemma find_highest_ge_init: "maxScore \<le> fst (find_highest maxScore d es)"
proof (induction es arbitrary: maxScore d)
  case Nil
  show ?case by simp
next
  case (Cons e es)
  obtain k sc where e: "e = (k, sc)" by (cases e)
  show ?case
  proof (cases "sc > maxScore")
    case True
    with Cons.IH [of sc k] e show ?thesis by simp
  next
    case False
    with Cons.IH [of maxScore d] e show ?thesis by simp
  qed
qed

lemma find_highest_ge_all: "(k, sc) \<in> set es \<Longrightarrow> sc \<le> fst (find_highest maxScore d es)"
proof (induction es arbitrary: maxScore d)
  case Nil
  then show ?case by simp
next
  case (Cons e es)
  obtain k' sc' where e: "e = (k', sc')" by (cases e)
  show ?case
  proof (cases "(k, sc) = e")
    case True
    then have same: "k' = k" "sc' = sc" using e by simp_all
    show ?thesis
    proof (cases "sc > maxScore")
      case True
      with find_highest_ge_init [of sc k es] e same show ?thesis by simp
    next
      case False
      with find_highest_ge_init [of maxScore d es] e same show ?thesis by simp
    qed
  next
    case False
    with Cons.prems have mem: "(k, sc) \<in> set es" by simp
    show ?thesis using Cons.IH [OF mem] e by simp
  qed
qed

lemma find_highest_none_above:
  "\<forall>e \<in> set es. snd e \<le> maxScore \<Longrightarrow> find_highest maxScore d es = (maxScore, d)"
  by (induction es arbitrary: maxScore d) auto

lemma find_highest_unchanged:
  "fst (find_highest maxScore d es) = maxScore \<Longrightarrow> find_highest maxScore d es = (maxScore, d)"
proof -
  assume eq: "fst (find_highest maxScore d es) = maxScore"
  have "\<forall>e \<in> set es. snd e \<le> maxScore"
  proof
    fix e assume "e \<in> set es"
    then have "(fst e, snd e) \<in> set es" by simp
    from find_highest_ge_all [OF this, of maxScore d] eq show "snd e \<le> maxScore" by simp
  qed
  then show ?thesis by (rule find_highest_none_above)
qed

lemma hd_insort_key:
  "hd (insort_key f x ys) = (if ys = [] \<or> f x \<le> f (hd ys) then x else hd ys)"
  by (cases ys) simp_all

lemma sort_key_eq_Nil: "sort_key f xs = [] \<longleftrightarrow> xs = []"
  by (metis length_sort length_0_conv)

lemma find_highest_is_top:
  "find_highest maxScore d es = (M, D) \<Longrightarrow> maxScore < M \<Longrightarrow>
   hd (sort_key (\<lambda>(shape, score). - score) es) = (D, M)"
proof (induction es arbitrary: maxScore d)
  case Nil
  then show ?case by simp
next
  case (Cons e es)
  obtain k sc where e: "e = (k, sc)" by (cases e)
  let ?ys = "sort_key (\<lambda>(shape, score). - score) es"
  have step: "hd (sort_key (\<lambda>(shape, score). - score) (e # es)) =
      (if ?ys = [] \<or> - sc \<le> (\<lambda>(shape, score). - score) (hd ?ys) then (k, sc) else hd ?ys)"
    using e by (simp add: hd_insort_key)
  show ?case
  proof (cases "sc > maxScore")
    case True
    with Cons.prems e have run: "find_highest sc k es = (M, D)" by simp
    show ?thesis
    proof (cases "sc < M")
      case True
      from Cons.IH [OF run True] have top: "hd ?ys = (D, M)" .
      have "es \<noteq> []" using run True by auto
      then have "?ys \<noteq> []" by (simp add: sort_key_eq_Nil)
      with step top True show ?thesis by simp
    next
      case False
      with find_highest_ge_init [of sc k es] run have "M = sc" by simp
      with run have "fst (find_highest sc k es) = sc" by simp
      from find_highest_unchanged [OF this] run have DM: "D = k" "M = sc" by simp_all
      have front: "?ys = [] \<or> - sc \<le> (\<lambda>(shape, score). - score) (hd ?ys)"
      proof (cases "?ys = []")
        case True
        then show ?thesis by simp
      next
        case False
        then have "hd ?ys \<in> set ?ys" by (rule hd_in_set)
        then have "hd ?ys \<in> set es" by (simp only: set_sort)
        then have "(fst (hd ?ys), snd (hd ?ys)) \<in> set es" by simp
        from find_highest_ge_all [OF this, of sc k] run DM
        have "snd (hd ?ys) \<le> sc" by simp
        then show ?thesis by (simp add: case_prod_beta)
      qed
      with step DM show ?thesis by simp
    qed
  next
    case False
    with Cons.prems e have run: "find_highest maxScore d es = (M, D)" by simp
    from Cons.IH [OF run Cons.prems(2)] have top: "hd ?ys = (D, M)" .
    have "es \<noteq> []" using run Cons.prems(2) by auto
    then have "?ys \<noteq> []" by (simp add: sort_key_eq_Nil)
    with step top False Cons.prems(2) show ?thesis by simp
  qed
qed

lemma set_entries: "set (entries scores) = {(k, scores k) | k. True}"
proof -
  have "\<And>k. k \<in> set [OVAL, ROUND, SQUARE, HEART, LONG, DIAMOND]"
    subgoal for k by (cases k) simp_all
    done
  then have "set [OVAL, ROUND, SQUARE, HEART, LONG, DIAMOND] = UNIV" by blast
  then show ?thesis unfolding entries_def by (simp only: set_map) auto
qed

lemma length_sortedScores: "length (sortedScores scores) = 6"
  by (simp add: sortedScores_def entries_def)

lemma set_sortedScores: "set (sortedScores scores) = set (entries scores)"
  by (simp add: sortedScores_def)

lemma select_nothing_positive:
  assumes "\<forall>k. scores k \<le> 0"
  shows "select_shape m scores = ROUND"
proof -
  have "\<forall>e \<in> set (entries scores). snd e \<le> 0"
    using assms by (auto simp: set_entries)
  then have "find_highest 0 OVAL (entries scores) = (0, OVAL)"
    by (rule find_highest_none_above)
  then show ?thesis by (simp add: select_shape_def)
qed

section \<open>The tie-break cascades\<close>

lemma decide_oval_heart_range: "decide_oval_heart m d \<in> {OVAL, HEART, d}"
  by (simp add: decide_oval_heart_def)

lemma decide_oval_round_range: "decide_oval_round m d \<in> {OVAL, ROUND}"
  by (simp add: decide_oval_round_def)

lemma decide_oval_long_range: "decide_oval_long m d \<in> {OVAL, LONG}"
  by (simp add: decide_oval_long_def)

lemma decide_oval_square_range: "decide_oval_square m d \<in> {OVAL, SQUARE, d}"
  by (simp add: decide_oval_square_def)

lemma tiebreak_range: "tiebreak m t s d \<in> {d, fst t, fst s}"
proof (cases "snd s > 0 \<and> snd t - snd s \<le> 3")
  case False
  then show ?thesis by (auto simp: tiebreak_def)
next
  case True
  note close = this
  consider (oh) "close_pair OVAL HEART (fst t) (fst s)"
    | (or) "close_pair OVAL ROUND (fst t) (fst s)"
    | (ol) "close_pair OVAL LONG (fst t) (fst s)"
    | (os) "close_pair OVAL SQUARE (fst t) (fst s)"
    | (none) "\<not> close_pair OVAL HEART (fst t) (fst s)" "\<not> close_pair OVAL ROUND (fst t) (fst s)"
        "\<not> close_pair OVAL LONG (fst t) (fst s)" "\<not> close_pair OVAL SQUARE (fst t) (fst s)"
    by blast
  then show ?thesis
  proof cases
    case oh
    then have "tiebreak m t s d = decide_oval_heart m d"
      using close by (auto simp: tiebreak_def close_pair_def)
    with decide_oval_heart_range [of m d] oh show ?thesis
      by (auto simp: close_pair_def)
  next
    case or
    then have "tiebreak m t s d = decide_oval_round m d"
      using close by (auto simp: tiebreak_def close_pair_def)
    with decide_oval_round_range [of m d] or show ?thesis
      by (auto simp: close_pair_def)
  next
    case ol
    then have "tiebreak m t s d = decide_oval_long m d"
      using close by (auto simp: tiebreak_def close_pair_def)
    with decide_oval_long_range [of m d] ol show ?thesis
      by (auto simp: close_pair_def)
  next
    case os
    then have "tiebreak m t s d = decide_oval_square m d"
      using close by (auto simp: tiebreak_def close_pair_def)
    with decide_oval_square_range [of m d] os show ?thesis
      by (auto simp: close_pair_def)
  next
    case none
    then show ?thesis using close by (simp add: tiebreak_def)
  qed
qed

lemma tiebreak_oval_heart:
  assumes "snd s > 0" "snd t - snd s \<le> 3"
    and "(fst t = OVAL \<and> fst s = HEART) \<or> (fst t = HEART \<and> fst s = OVAL)"
    and "foreheadToJawRatio m > Fin 1.22"
  shows "tiebreak m t s d = HEART"
  using assms by (auto simp: tiebreak_def close_pair_def decide_oval_heart_def)

lemma sortedScores_nth_in_entries:
  "i < 6 \<Longrightarrow> sortedScores scores ! i \<in> set (entries scores)"
  using nth_mem [of i "sortedScores scores"]
  by (simp add: length_sortedScores set_sortedScores)

lemma highest_is_first:
  assumes "0 < fst (find_highest 0 OVAL (entries scores))"
  shows "snd (find_highest 0 OVAL (entries scores)) = fst (sortedScores scores ! 0)"
proof -
  obtain M D where run: "find_highest 0 OVAL (entries scores) = (M, D)"
    by (cases "find_highest 0 OVAL (entries scores)")
  with assms have "0 < M" by simp
  from find_highest_is_top [OF run this]
  have "hd (sortedScores scores) = (D, M)" by (simp add: sortedScores_def)
  moreover have "sortedScores scores \<noteq> []"
    using length_sortedScores [of scores] by auto
  ultimately have "sortedScores scores ! 0 = (D, M)" by (simp add: hd_conv_nth)
  with run show ?thesis by simp
qed

lemma select_shape_in_top_two:
  assumes "0 < fst (find_highest 0 OVAL (entries scores))"
  shows "select_shape m scores \<in> {fst (sortedScores scores ! 0), fst (sortedScores scores ! 1)}"
proof -
  let ?run = "find_highest 0 OVAL (entries scores)"
  let ?t = "sortedScores scores ! 0" and ?s = "sortedScores scores ! 1"
  have "select_shape m scores = tiebreak m ?t ?s (snd ?run)"
    using assms by (simp add: select_shape_def case_prod_beta)
  moreover have "snd ?run = fst ?t" using assms by (rule highest_is_first)
  ultimately show ?thesis using tiebreak_range [of m ?t ?s "fst ?t"] by auto
qed

lemma select_shape_oval_heart:
  assumes "0 < snd (sortedScores scores ! 1)"
    and "snd (sortedScores scores ! 0) - snd (sortedScores scores ! 1) \<le> 3"
    and "(fst (sortedScores scores ! 0) = OVAL \<and> fst (sortedScores scores ! 1) = HEART)
       \<or> (fst (sortedScores scores ! 0) = HEART \<and> fst (sortedScores scores ! 1) = OVAL)"
    and "foreheadToJawRatio m > Fin 1.22"
  shows "select_shape m scores = HEART"
proof -
  let ?run = "find_highest 0 OVAL (entries scores)"
  let ?t = "sortedScores scores ! 0" and ?s = "sortedScores scores ! 1"
  have "?s \<in> set (entries scores)" by (rule sortedScores_nth_in_entries) simp
  then have "(fst ?s, snd ?s) \<in> set (entries scores)" by simp
  from find_highest_ge_all [OF this, of 0 OVAL] assms(1)
  have "fst ?run \<noteq> 0" by simp
  then have "select_shape m scores = tiebreak m ?t ?s (snd ?run)"
    by (simp add: select_shape_def case_prod_beta)
  with tiebreak_oval_heart [OF assms(1,2,3,4)] show ?thesis by simp
qed

section \<open>The round score under the banded rules\<close>

text \<open>What each banded rule does to the round score.\<close>

lemma bump_apply: "bump k d scores j = (if j = k then scores k + d else scores j)"
  by (simp add: bump_def)

lemma round_widthToHeight:
  "score_widthToHeight m scores ROUND = scores ROUND + round_gain (score_widthToHeight m)"
  by (simp add: score_widthToHeight_def round_gain_def initial_scores_def bump_apply)

lemma round_roundnessCoefficient:
  "score_roundnessCoefficient m scores ROUND
     = scores ROUND + round_gain (score_roundnessCoefficient m)"
  by (simp add: score_roundnessCoefficient_def round_gain_def initial_scores_def bump_apply)

lemma round_faceCircularity:
  "score_faceCircularity m scores ROUND = scores ROUND + round_gain (score_faceCircularity m)"
  by (simp add: score_faceCircularity_def round_gain_def initial_scores_def bump_apply)

lemma round_cheekCurvature:
  "score_cheekCurvature m scores ROUND = scores ROUND + round_gain (score_cheekCurvature m)"
  by (simp add: score_cheekCurvature_def round_gain_def initial_scores_def bump_apply)

lemma round_jawToForehead:
  "score_jawToForehead m scores ROUND = scores ROUND + round_gain (score_jawToForehead m)"
  by (simp add: score_jawToForehead_def round_gain_def initial_scores_def bump_apply)

lemma round_foreheadToJaw: "score_foreheadToJaw m scores ROUND = scores ROUND"
  by (simp add: score_foreheadToJaw_def bump_apply)

lemma round_upperToLower: "score_upperToLower m scores ROUND = scores ROUND"
  by (simp add: score_upperToLower_def bump_apply)

lemma round_faceTapering: "score_faceTapering m scores ROUND = scores ROUND"
  by (simp add: score_faceTapering_def bump_apply)

lemma round_chinPointedness: "score_chinPointedness m scores ROUND = scores ROUND"
  by (simp add: score_chinPointedness_def bump_apply)

lemma round_diamond: "score_diamond m scores ROUND = scores ROUND"
  by (simp add: score_diamond_def bump_apply Let_def)

lemma round_squareWidths: "score_squareWidths m scores ROUND = scores ROUND"
  by (simp add: score_squareWidths_def bump_apply)

lemma round_heartWidths: "score_heartWidths m scores ROUND = scores ROUND"
  by (simp add: score_heartWidths_def bump_apply)

lemma round_ovalBalance: "score_ovalBalance m scores ROUND = scores ROUND"
  by (simp add: score_ovalBalance_def bump_apply)

lemma round_cheekFullness:
  "score_cheekFullness m scores ROUND = scores ROUND + round_gain (score_cheekFullness m)"
  by (simp add: score_cheekFullness_def round_gain_def initial_scores_def bump_apply)

lemma round_jawRoundness:
  "score_jawRoundness m scores ROUND = scores ROUND + round_gain (score_jawRoundness m)"
  by (simp add: score_jawRoundness_def round_gain_def initial_scores_def bump_apply)

lemma banded_round:
  "banded_scores m ROUND =
     round_gain (score_widthToHeight m) + round_gain (score_roundnessCoefficient m)
     + round_gain (score_faceCircularity m) + round_gain (score_cheekCurvature m)
     + round_gain (score_jawToForehead m) + round_gain (score_cheekFullness m)
     + round_gain (score_jawRoundness m)"
  unfolding banded_scores_def o_apply
  by (simp only: round_widthToHeight round_roundnessCoefficient round_faceCircularity
      round_cheekCurvature round_jawToForehead round_foreheadToJaw round_upperToLower
      round_faceTapering round_chinPointedness round_diamond round_squareWidths
      round_heartWidths round_ovalBalance round_cheekFullness round_jawRoundness)
    (simp add: initial_scores_def)

lemma gain_widthToHeight_high:
  "w > Fin 0.95 \<Longrightarrow> round_gain (score_widthToHeight (m\<lparr>widthToHeightRatio := w\<rparr>)) = 5"
  by (simp add: round_gain_def score_widthToHeight_def initial_scores_def bump_apply)

lemma gain_widthToHeight_low:
  assumes "w < Fin 0.78"
  shows "round_gain (score_widthToHeight (m\<lparr>widthToHeightRatio := w\<rparr>)) = 0"
proof -
  have "\<not> Fin 0.95 < w" "\<not> Fin 0.85 \<le> w" "\<not> Fin 0.78 \<le> w"
    using assms by (cases w; simp)+
  then show ?thesis
    by (simp add: round_gain_def score_widthToHeight_def initial_scores_def bump_apply)
qed

lemma gain_jawToForehead_low:
  assumes "w < Fin 0.78"
  shows "round_gain (score_jawToForehead (m\<lparr>widthToHeightRatio := w\<rparr>)) = 0"
proof -
  have "\<not> Fin 0.85 < w" using assms by (cases w; simp)
  then show ?thesis
    by (simp add: round_gain_def score_jawToForehead_def initial_scores_def bump_apply)
qed

lemma gain_jawToForehead_nonneg: "0 \<le> round_gain (score_jawToForehead m)"
  by (simp add: round_gain_def score_jawToForehead_def initial_scores_def bump_apply)

lemma other_rules_ignore_widthToHeight:
  "score_roundnessCoefficient (m\<lparr>widthToHeightRatio := w\<rparr>) = score_roundnessCoefficient m"
  "score_faceCircularity (m\<lparr>widthToHeightRatio := w\<rparr>) = score_faceCircularity m"
  "score_cheekCurvature (m\<lparr>widthToHeightRatio := w\<rparr>) = score_cheekCurvature m"
  "score_cheekFullness (m\<lparr>widthToHeightRatio := w\<rparr>) = score_cheekFullness m"
  "score_jawRoundness (m\<lparr>widthToHeightRatio := w\<rparr>) = score_jawRoundness m"
  by (rule ext, simp add: score_roundnessCoefficient_def score_faceCircularity_def
      score_cheekCurvature_def score_cheekFullness_def score_jawRoundness_def
      cong: if_cong)+

lemma gain_bounds:
  "round_gain (score_roundnessCoefficient m) \<le> 8"
  "round_gain (score_faceCircularity m) \<le> 7"
  "round_gain (score_cheekCurvature m) \<le> 4"
  "round_gain (score_cheekFullness m) \<le> 4"
  "round_gain (score_jawRoundness m) \<le> 4"
  by (simp_all add: round_gain_def initial_scores_def bump_apply score_roundnessCoefficient_def
      score_faceCircularity_def score_cheekCurvature_def score_cheekFullness_def
      score_jawRoundness_def)

lemma banded_round_monotone:
  assumes "w1 > Fin 0.95" "w0 < Fin 0.78"
  shows "banded_scores (m\<lparr>widthToHeightRatio := w0\<rparr>) ROUND + 5
         \<le> banded_scores (m\<lparr>widthToHeightRatio := w1\<rparr>) ROUND"
  using gain_jawToForehead_nonneg [of "m\<lparr>widthToHeightRatio := w1\<rparr>"]
  by (simp add: banded_round other_rules_ignore_widthToHeight
      gain_widthToHeight_high [OF assms(1)] gain_widthToHeight_low [OF assms(2)]
      gain_jawToForehead_low [OF assms(2)])

lemma banded_round_low_bound:
  assumes "w0 < Fin 0.78"
  shows "banded_scores (m\<lparr>widthToHeightRatio := w0\<rparr>) ROUND \<le> 27"
  using gain_bounds [of m]
  by (simp add: banded_round other_rules_ignore_widthToHeight
      gain_widthToHeight_low [OF assms] gain_jawToForehead_low [OF assms])

lemma definitive_heart_ignores_widthToHeight:
  "definitive_heart (m\<lparr>widthToHeightRatio := w\<rparr>) = definitive_heart m"
  by (simp add: definitive_heart_def)

lemma definitive_round_low:
  assumes "w0 < Fin 0.78"
  shows "definitive_round (m\<lparr>widthToHeightRatio := w0\<rparr>)
         \<longleftrightarrow> faceCircularity m > Fin 0.95 \<and> roundnessCoefficient m > Fin 0.85"
proof -
  have "\<not> Fin 0.95 < w0" using assms by (cases w0; simp)
  then show ?thesis by (simp add: definitive_round_def)
qed

lemma definitive_round_high:
  assumes "w1 > Fin 0.95"
  shows "definitive_round (m\<lparr>widthToHeightRatio := w1\<rparr>)
         \<longleftrightarrow> (faceCircularity m > Fin 0.95 \<and> roundnessCoefficient m > Fin 0.85)
             \<or> cheekFullness m > Fin 0.45"
  using assms by (simp add: definitive_round_def)

text \<open>The chin ratio part of the definitive chain, as a change of the round score.\<close>

lemma chin_round:
  assumes "\<not> definitive_heart m" "\<not> definitive_round m"
  shows "score_definitive m scores ROUND = scores ROUND + chin_round_gain (chinRatio m)"
  using assms by (simp add: score_definitive_def chin_round_gain_def bump_apply)

lemma chin_round_gain_bound: "chin_round_gain c \<le> 5"
  by (simp add: chin_round_gain_def)

lemma final_round_monotone:
  assumes "w1 > Fin 0.95" "w0 < Fin 0.78"
  shows "final_scores (m\<lparr>widthToHeightRatio := w0\<rparr>) ROUND
         \<le> final_scores (m\<lparr>widthToHeightRatio := w1\<rparr>) ROUND"
proof -
  let ?m0 = "m\<lparr>widthToHeightRatio := w0\<rparr>" and ?m1 = "m\<lparr>widthToHeightRatio := w1\<rparr>"
  have heart: "definitive_heart ?m0 = definitive_heart m" "definitive_heart ?m1 = definitive_heart m"
    by (simp_all add: definitive_heart_ignores_widthToHeight)
  show ?thesis
  proof (cases "definitive_heart m")
    case True
    then show ?thesis by (simp add: final_scores_def score_definitive_def heart)
  next
    case no_heart: False
    show ?thesis
    proof (cases "definitive_round ?m0")
      case True
      then have "definitive_round ?m1"
        by (simp add: definitive_round_low [OF assms(2)] definitive_round_high [OF assms(1)])
      with True no_heart show ?thesis
        by (simp add: final_scores_def score_definitive_def heart)
    next
      case no_round0: False
      have base: "final_scores ?m0 ROUND = banded_scores ?m0 ROUND + chin_round_gain (chinRatio m)"
        using chin_round [of ?m0 "banded_scores ?m0"] no_heart no_round0
        by (simp add: final_scores_def heart)
      show ?thesis
      proof (cases "definitive_round ?m1")
        case True
        then have "final_scores ?m1 ROUND = 100"
          using no_heart by (simp add: final_scores_def score_definitive_def heart only_def)
        with base banded_round_low_bound [OF assms(2), of m] chin_round_gain_bound [of "chinRatio m"]
        show ?thesis by simp
      next
        case False
        then have "final_scores ?m1 ROUND = banded_scores ?m1 ROUND + chin_round_gain (chinRatio m)"
          using chin_round [of ?m1 "banded_scores ?m1"] no_heart
          by (simp add: final_scores_def heart)
        with base banded_round_monotone [OF assms, of m] show ?thesis by simp
      qed
    qed
  qed
qed

section \<open>A jaw corner on the chin\<close>

lemma measurements_Some_points:
  assumes "measurements jawLine leftEye rightEye mouthGroup = Some m"
  shows "\<exists>jl jr jb. item jawLine 3 = Some jl \<and> item jawLine 13 = Some jr
           \<and> item jawLine 8 = Some jb \<and> jawAngle m = chin_angle jl jr jb
           \<and> chinPointedness m = jawAngle m \<and> jawRoundness m = Fin 180 - jawAngle m"
  using assms
  by (auto simp: measurements_def chin_angle_def Let_def split: bind_splits)

lemma self_difference: "(a::jsnum) - a = Fin 0 \<or> a - a = NaN"
  by (cases a) simp_all

lemma zero_or_NaN_times:
  "z = Fin 0 \<or> z = NaN \<Longrightarrow> z * c = Fin 0 \<or> z * c = NaN"
  "z = Fin 0 \<or> z = NaN \<Longrightarrow> c * z = Fin 0 \<or> c * z = NaN"
  by (cases c; auto)+

lemma zero_or_NaN_plus:
  "z = Fin 0 \<or> z = NaN \<Longrightarrow> z' = Fin 0 \<or> z' = NaN \<Longrightarrow> z + z' = Fin 0 \<or> z + z' = NaN"
  by auto

lemma zero_or_NaN_sqrt:
  "z = Fin 0 \<or> z = NaN \<Longrightarrow> Math_sqrt z = Fin 0 \<or> Math_sqrt z = NaN"
  by auto

lemma zero_or_NaN_divide:
  "z = Fin 0 \<or> z = NaN \<Longrightarrow> z' = Fin 0 \<or> z' = NaN \<Longrightarrow> z / z' = NaN"
  by auto

lemma chin_angle_left_degenerate: "chin_angle jb jr jb = NaN"
proof -
  let ?lx = "px jb - px jb" and ?ly = "py jb - py jb"
  let ?rx = "px jr - px jb" and ?ry = "py jr - py jb"
  have lx: "?lx = Fin 0 \<or> ?lx = NaN" and ly: "?ly = Fin 0 \<or> ?ly = NaN"
    by (rule self_difference)+
  have mag: "Math_sqrt (?lx * ?lx + ?ly * ?ly) = Fin 0 \<or> Math_sqrt (?lx * ?lx + ?ly * ?ly) = NaN"
    by (intro zero_or_NaN_sqrt zero_or_NaN_plus zero_or_NaN_times lx ly)
  have den: "Math_sqrt (?lx * ?lx + ?ly * ?ly) * Math_sqrt (?rx * ?rx + ?ry * ?ry) = Fin 0
      \<or> Math_sqrt (?lx * ?lx + ?ly * ?ly) * Math_sqrt (?rx * ?rx + ?ry * ?ry) = NaN"
    by (intro zero_or_NaN_times mag)
  have dot: "?lx * ?rx + ?ly * ?ry = Fin 0 \<or> ?lx * ?rx + ?ly * ?ry = NaN"
    by (intro zero_or_NaN_plus zero_or_NaN_times lx ly)
  have "(?lx * ?rx + ?ly * ?ry)
      / (Math_sqrt (?lx * ?lx + ?ly * ?ly) * Math_sqrt (?rx * ?rx + ?ry * ?ry)) = NaN"
    using dot den by (rule zero_or_NaN_divide)
  then show ?thesis by (simp add: chin_angle_def Let_def)
qed

lemma chin_angle_right_degenerate: "chin_angle jl jb jb = NaN"
proof -
  let ?lx = "px jl - px jb" and ?ly = "py jl - py jb"
  let ?rx = "px jb - px jb" and ?ry = "py jb - py jb"
  have rx: "?rx = Fin 0 \<or> ?rx = NaN" and ry: "?ry = Fin 0 \<or> ?ry = NaN"
    by (rule self_difference)+
  have mag: "Math_sqrt (?rx * ?rx + ?ry * ?ry) = Fin 0 \<or> Math_sqrt (?rx * ?rx + ?ry * ?ry) = NaN"
    by (intro zero_or_NaN_sqrt zero_or_NaN_plus zero_or_NaN_times rx ry)
  have den: "Math_sqrt (?lx * ?lx + ?ly * ?ly) * Math_sqrt (?rx * ?rx + ?ry * ?ry) = Fin 0
      \<or> Math_sqrt (?lx * ?lx + ?ly * ?ly) * Math_sqrt (?rx * ?rx + ?ry * ?ry) = NaN"
    by (intro zero_or_NaN_times mag)
  have dot: "?lx * ?rx + ?ly * ?ry = Fin 0 \<or> ?lx * ?rx + ?ly * ?ry = NaN"
    by (intro zero_or_NaN_plus zero_or_NaN_times rx ry)
  have "(?lx * ?rx + ?ly * ?ry)
      / (Math_sqrt (?lx * ?lx + ?ly * ?ly) * Math_sqrt (?rx * ?rx + ?ry * ?ry)) = NaN"
    using dot den by (rule zero_or_NaN_divide)
  then show ?thesis by (simp add: chin_angle_def Let_def)
qed

lemma NaN_bands_silent:
  "chinPointedness m = NaN \<Longrightarrow> score_chinPointedness m scores = scores"
  "jawRoundness m = NaN \<Longrightarrow> score_jawRoundness m scores = scores"
  by (simp_all add: score_chinPointedness_def score_jawRoundness_def)

section \<open>From the derivation to the label\<close>

lemma derive_Some:
  assumes "derive lm = Inr (Some m)"
  shows "\<exists>jawLine leftEye rightEye. getJawOutline lm = Some jawLine \<and> getLeftEye lm = Some leftEye
      \<and> getRightEye lm = Some rightEye
      \<and> measurements jawLine leftEye rightEye (getMouth lm) = Some m
      \<and> \<not> faceWidth m \<le> Fin 0 \<and> \<not> faceHeight m \<le> Fin 0"
  using assms by (auto simp: derive_def split: option.splits if_splits)

lemma detect_of_derive: "derive lm = Inr (Some m) \<Longrightarrow> detectFaceShape lm = Some (decide m)"
  by (simp add: detectFaceShape_def detect_try_def)

section \<open>The ranked scores\<close>

lemma sortedScores_falling:
  assumes "i \<le> j" "j < 6"
  shows "snd (sortedScores scores ! j) \<le> snd (sortedScores scores ! i)"
proof -
  let ?f = "\<lambda>(shape, score). - (score::int)"
  let ?ys = "sortedScores scores"
  have "sorted (map ?f ?ys)" unfolding sortedScores_def by (rule sorted_sort_key)
  moreover have "j < length (map ?f ?ys)" using assms(2) by (simp add: length_sortedScores)
  ultimately have "map ?f ?ys ! i \<le> map ?f ?ys ! j"
    using assms(1) by (simp only: sorted_nth_mono)
  then show ?thesis using assms by (simp add: length_sortedScores case_prod_beta)
qed

lemma sortedScores_nth_score:
  assumes "i < 6"
  shows "snd (sortedScores scores ! i) = scores (fst (sortedScores scores ! i))"
  using sortedScores_nth_in_entries [OF assms, of scores] by (auto simp: set_entries)

lemma sortedScores_position:
  "\<exists>i<6. sortedScores scores ! i = (k, scores k)"
proof -
  have "(k, scores k) \<in> set (sortedScores scores)"
    by (simp add: set_sortedScores set_entries)
  then show ?thesis by (simp add: in_set_conv_nth length_sortedScores)
qed

lemma above_second_is_first:
  assumes "scores (fst (sortedScores scores ! 1)) < scores k"
  shows "k = fst (sortedScores scores ! 0)"
proof -
  obtain i where i: "i < 6" "sortedScores scores ! i = (k, scores k)"
    using sortedScores_position [of scores k] by blast
  have "i = 0"
  proof (rule ccontr)
    assume "i \<noteq> 0"
    then have "1 \<le> i" by simp
    from sortedScores_falling [OF this i(1), of scores] i(2)
    have "scores k \<le> snd (sortedScores scores ! 1)" by simp
    with assms sortedScores_nth_score [of 1 scores] show False by simp
  qed
  with i(2) show ?thesis by simp
qed

lemma none_above_first: "scores k \<le> scores (fst (sortedScores scores ! 0))"
proof -
  obtain i where i: "i < 6" "sortedScores scores ! i = (k, scores k)"
    using sortedScores_position [of scores k] by blast
  from sortedScores_falling [of 0 i scores] i
  have "scores k \<le> snd (sortedScores scores ! 0)" by simp
  with sortedScores_nth_score [of 0 scores] show ?thesis by simp
qed

lemma at_most_one_above:
  assumes "r = fst (sortedScores scores ! 0) \<or> r = fst (sortedScores scores ! 1)"
  shows "card {k. scores r < scores k} \<le> 1"
proof -
  have "{k. scores r < scores k} \<subseteq> {fst (sortedScores scores ! 0)}"
  proof
    fix k assume "k \<in> {k. scores r < scores k}"
    then have above: "scores r < scores k" by simp
    from assms show "k \<in> {fst (sortedScores scores ! 0)}"
    proof
      assume "r = fst (sortedScores scores ! 0)"
      with above none_above_first [of scores k] show ?thesis by simp
    next
      assume "r = fst (sortedScores scores ! 1)"
      with above above_second_is_first [of scores k] show ?thesis by simp
    qed
  qed
  then have "card {k. scores r < scores k} \<le> card {fst (sortedScores scores ! 0)}"
    by (intro card_mono) simp_all
  then show ?thesis by simp
qed

lemma positive_score_positive_max:
  assumes "0 < scores k"
  shows "0 < fst (find_highest 0 OVAL (entries scores))"
proof -
  have "(k, scores k) \<in> set (entries scores)" by (auto simp: set_entries)
  from find_highest_ge_all [OF this, of 0 OVAL] assms show ?thesis by simp
qed

section \<open>The sample inputs, evaluated\<close>

lemmas sample_points = pt_def sample_leftEye_def sample_rightEye_def sample_mouth_def

lemma tie_derivation: "derive tie_face = Inr (Some tie_measurements)"
  by (simp add: derive_def tie_face_def measurements_def item_def tie_jaw_def
      sample_points tie_measurements_def Let_def)

lemma heart_derivation: "derive heart_face = Inr (Some heart_measurements)"
  by (simp add: derive_def heart_face_def measurements_def item_def heart_jaw_def
      sample_points heart_measurements_def Let_def)

lemma degenerate_derivation: "derive degenerate_face = Inr (Some degenerate_measurements)"
  by (simp add: derive_def degenerate_face_def measurements_def item_def degenerate_jaw_def
      sample_points degenerate_measurements_def Let_def)

lemma plain_derivation: "derive plain_face = Inr (Some plain_measurements)"
  by (simp add: derive_def plain_face_def measurements_def item_def plain_jaw_def
      sample_points plain_measurements_def Let_def)

lemma nan_derivation: "derive nan_face = Inr (Some nan_measurements)"
  by (simp add: derive_def nan_face_def measurements_def item_def nan_points_def
      nan_measurements_def Let_def numeral_eq_Suc)

lemmas sample_derivations = tie_derivation heart_derivation degenerate_derivation
  plain_derivation nan_derivation

lemmas scoring_rules = banded_scores_def score_widthToHeight_def score_roundnessCoefficient_def
  score_faceCircularity_def score_cheekCurvature_def score_jawToForehead_def
  score_foreheadToJaw_def score_upperToLower_def score_faceTapering_def
  score_chinPointedness_def score_diamond_def score_squareWidths_def score_heartWidths_def
  score_ovalBalance_def score_cheekFullness_def score_jawRoundness_def

lemma tie_banded_scores:
  "banded_scores tie_measurements = (\<lambda>k. 0)(OVAL := 2, ROUND := - 2, HEART := 16)"
  by (simp add: scoring_rules tie_measurements_def initial_scores_def bump_def Let_def)

lemma tie_final_scores:
  "final_scores tie_measurements = (\<lambda>k. 0)(OVAL := 17, ROUND := - 2, HEART := 16)"
  unfolding final_scores_def tie_banded_scores
  by (simp add: score_definitive_def definitive_heart_def definitive_round_def bump_def
      tie_measurements_def fun_eq_iff)

lemma tie_sortedScores:
  "sortedScores (final_scores tie_measurements) ! 0 = (OVAL, 17)"
  "sortedScores (final_scores tie_measurements) ! 1 = (HEART, 16)"
  by (simp_all add: tie_final_scores sortedScores_def entries_def)

lemma plain_banded_scores:
  "banded_scores plain_measurements = (\<lambda>k. 0)(OVAL := 6, SQUARE := 2, HEART := 3)"
  by (simp add: scoring_rules plain_measurements_def initial_scores_def bump_def Let_def
      fun_eq_iff)

lemma plain_final_scores:
  "final_scores plain_measurements = (\<lambda>k. 0)(OVAL := 21, SQUARE := 2, HEART := 3)"
  unfolding final_scores_def plain_banded_scores
  by (simp add: score_definitive_def definitive_heart_def definitive_round_def bump_def
      plain_measurements_def fun_eq_iff)

lemma nan_final_scores: "final_scores nan_measurements = (\<lambda>k. 0)"
  by (simp add: final_scores_def scoring_rules score_definitive_def definitive_heart_def
      definitive_round_def nan_measurements_def initial_scores_def)

lemma low_eyes_height:
  "\<exists>m. measurements plain_jaw [pt 70 300] [pt 130 300] (Some sample_mouth) = Some m
       \<and> faceHeight m = Fin (- 40)"
  by (simp add: measurements_def item_def plain_jaw_def sample_points Let_def)

section \<open>The claims\<close>

text \<open>
  C1. Whenever measurement derivation completes and the measurements satisfy the heart
  condition (forehead-to-jaw ratio at least 1.4 with tapering at least 0.3, or tapering at
  least 0.4 with forehead-to-jaw ratio at least 1.25), the classifier returns heart. The
  definitive chain then replaces any table the banded rules produced by heart = 100 and 0
  for the five other shapes, and winner selection on that table yields heart for any
  measurements.
\<close>

theorem heart_override_wins:
  assumes "derive lm = Inr (Some m)"
    and "(foreheadToJawRatio m \<ge> Fin 1.4 \<and> faceTapering m \<ge> Fin 0.3)
       \<or> (faceTapering m \<ge> Fin 0.4 \<and> foreheadToJawRatio m \<ge> Fin 1.25)"
  shows "detectFaceShape lm = Some HEART
     \<and> score_definitive m scores HEART = 100
     \<and> score_definitive m scores OVAL = 0 \<and> score_definitive m scores ROUND = 0
     \<and> score_definitive m scores SQUARE = 0 \<and> score_definitive m scores LONG = 0
     \<and> score_definitive m scores DIAMOND = 0
     \<and> select_shape m' (score_definitive m scores) = HEART"
proof -
  have heart: "definitive_heart m" using assms(2) by (simp add: definitive_heart_def)
  then have table: "score_definitive m scores = only HEART" for scores
    by (simp add: score_definitive_def)
  have pick: "select_shape m' (only HEART) = HEART" for m'
    by (simp add: select_shape_def only_def entries_def sortedScores_def tiebreak_def)
  have "decide m = HEART" by (simp add: decide_def final_scores_def table pick)
  with detect_of_derive [OF assms(1)] have "detectFaceShape lm = Some HEART" by simp
  then show ?thesis by (simp add: table pick) (simp add: only_def)
qed

theorem heart_override_wins_witness:
  "derive heart_face = Inr (Some heart_measurements)
   \<and> Fin 1.4 \<le> foreheadToJawRatio heart_measurements
   \<and> Fin 0.3 \<le> faceTapering heart_measurements
   \<and> detectFaceShape heart_face = Some HEART
   \<and> banded_scores heart_measurements HEART = 21
   \<and> final_scores heart_measurements HEART = 100
   \<and> final_scores heart_measurements ROUND = 0"
proof -
  have ratio: "Fin 1.4 \<le> foreheadToJawRatio heart_measurements"
    and taper: "Fin 0.3 \<le> faceTapering heart_measurements"
    by (simp_all add: heart_measurements_def)
  have banded: "banded_scores heart_measurements HEART = 21"
    by (simp add: scoring_rules heart_measurements_def initial_scores_def bump_def Let_def)
  from ratio taper
  have "(Fin 1.4 \<le> foreheadToJawRatio heart_measurements
          \<and> Fin 0.3 \<le> faceTapering heart_measurements)
       \<or> (Fin 0.4 \<le> faceTapering heart_measurements
          \<and> Fin 1.25 \<le> foreheadToJawRatio heart_measurements)" by simp
  from heart_override_wins [OF heart_derivation this, of "banded_scores heart_measurements"]
  show ?thesis using ratio taper banded heart_derivation by (simp add: final_scores_def)
qed

text \<open>
  C2. A landmark set with an empty jaw outline, or without its jaw outline, left eye, right
  eye or mouth group, or whose derived face width or face height is not positive, makes
  \<open>detectFaceShape\<close> return \<open>null\<close>. The function returns a value in each of these
  cases: what is thrown inside the \<open>try\<close> block (\<open>Inl\<close> in \<open>detect_try\<close>) is caught.
\<close>

theorem invalid_landmarks_give_null:
  assumes "getJawOutline lm = Some [] \<or> getJawOutline lm = None \<or> getLeftEye lm = None
     \<or> getRightEye lm = None \<or> getMouth lm = None
     \<or> (\<exists>jawLine leftEye rightEye m.
           getJawOutline lm = Some jawLine \<and> getLeftEye lm = Some leftEye
           \<and> getRightEye lm = Some rightEye
           \<and> measurements jawLine leftEye rightEye (getMouth lm) = Some m
           \<and> (faceWidth m \<le> Fin 0 \<or> faceHeight m \<le> Fin 0))"
  shows "detectFaceShape lm = None"
proof -
  have empty: "measurements [] leftEye rightEye mouthGroup = None" for leftEye rightEye mouthGroup
    by (simp add: measurements_def item_def)
  have no_mouth: "measurements jawLine leftEye rightEye None = None" for jawLine leftEye rightEye
    by (simp add: measurements_def Let_def split: bind_splits)
  from assms show ?thesis
    by (auto simp: detectFaceShape_def detect_try_def derive_def empty no_mouth
        split: option.splits sum.splits)
qed

theorem invalid_landmarks_give_null_witness:
  "getJawOutline empty_jaw_face = Some []
   \<and> detect_try empty_jaw_face = Inl TypeError
   \<and> detectFaceShape empty_jaw_face = None
   \<and> (\<exists>m. measurements plain_jaw [pt 70 300] [pt 130 300] (Some sample_mouth) = Some m
          \<and> faceHeight m = Fin (- 40))
   \<and> detect_try low_eyes_face = Inr None
   \<and> detectFaceShape low_eyes_face = None"
proof -
  have jaw: "getJawOutline empty_jaw_face = Some []" by (simp add: empty_jaw_face_def)
  have thrown: "detect_try empty_jaw_face = Inl TypeError"
    by (simp add: detect_try_def derive_def empty_jaw_face_def plain_face_def
        measurements_def item_def)
  obtain m where m: "measurements plain_jaw [pt 70 300] [pt 130 300] (Some sample_mouth) = Some m"
    "faceHeight m = Fin (- 40)"
    using low_eyes_height by blast
  then have returned: "detect_try low_eyes_face = Inr None"
    by (simp add: detect_try_def derive_def low_eyes_face_def plain_face_def)
  have "\<exists>jawLine leftEye rightEye m.
           getJawOutline low_eyes_face = Some jawLine \<and> getLeftEye low_eyes_face = Some leftEye
           \<and> getRightEye low_eyes_face = Some rightEye
           \<and> measurements jawLine leftEye rightEye (getMouth low_eyes_face) = Some m
           \<and> (faceWidth m \<le> Fin 0 \<or> faceHeight m \<le> Fin 0)"
    using m by (simp add: low_eyes_face_def plain_face_def)
  then have "detectFaceShape low_eyes_face = None"
    using invalid_landmarks_give_null [of low_eyes_face] by blast
  with jaw invalid_landmarks_give_null [of empty_jaw_face] thrown returned low_eyes_height
  show ?thesis by simp
qed

text \<open>
  C3. Whenever classification reaches winner selection and none of the six final scores
  is above zero, the classifier returns round: the loop leaves \<open>maxScore = 0\<close> with its
  initial winner oval, and the final check replaces that by round.
\<close>

theorem no_positive_score_gives_round:
  assumes "derive lm = Inr (Some m)"
    and "\<forall>k. final_scores m k \<le> 0"
  shows "detectFaceShape lm = Some ROUND
     \<and> find_highest 0 OVAL (entries (final_scores m)) = (0, OVAL)"
proof -
  have "\<forall>e \<in> set (entries (final_scores m)). snd e \<le> 0"
    using assms(2) by (auto simp: set_entries)
  then have "find_highest 0 OVAL (entries (final_scores m)) = (0, OVAL)"
    by (rule find_highest_none_above)
  moreover have "decide m = ROUND"
    unfolding decide_def using assms(2) by (rule select_nothing_positive)
  ultimately show ?thesis using detect_of_derive [OF assms(1)] by simp
qed

theorem no_positive_score_gives_round_witness:
  "derive nan_face = Inr (Some nan_measurements)
   \<and> (\<forall>k. final_scores nan_measurements k \<le> 0)
   \<and> detectFaceShape nan_face = Some ROUND"
proof -
  have none: "\<forall>k. final_scores nan_measurements k \<le> 0" by (simp add: nan_final_scores)
  from no_positive_score_gives_round [OF nan_derivation none] nan_derivation none
  show ?thesis by simp
qed

text \<open>
  C4 (as the specification states it, refuted). The specification asks that a zero-length
  vector from the chin \<open>jawLine[8]\<close> to a jaw corner abort the classification. The source
  has no such guard. In \<open>degenerate_face\<close> the left jaw corner \<open>jawLine[3]\<close> is the chin
  point itself, the jaw angle is \<open>NaN\<close>, and the classifier returns heart.
\<close>

theorem zero_length_vector_not_guarded:
  "getJawOutline degenerate_face = Some degenerate_jaw
   \<and> item degenerate_jaw 3 = Some (pt 100 240)
   \<and> item degenerate_jaw 8 = Some (pt 100 240)
   \<and> derive degenerate_face = Inr (Some degenerate_measurements)
   \<and> jawAngle degenerate_measurements = NaN
   \<and> detectFaceShape degenerate_face = Some HEART"
proof -
  have "definitive_heart degenerate_measurements"
    by (simp add: definitive_heart_def degenerate_measurements_def)
  then have "final_scores degenerate_measurements = only HEART"
    by (simp add: final_scores_def score_definitive_def)
  then have "decide degenerate_measurements = HEART"
    by (simp add: decide_def select_shape_def only_def entries_def sortedScores_def
        tiebreak_def)
  with detect_of_derive [OF degenerate_derivation]
  have "detectFaceShape degenerate_face = Some HEART" by simp
  then show ?thesis
    using degenerate_derivation
    by (simp add: degenerate_face_def degenerate_jaw_def item_def degenerate_measurements_def)
qed

text \<open>
  C4 (amended). When a jaw corner \<open>jawLine[3]\<close> or \<open>jawLine[13]\<close> coincides with the chin
  \<open>jawLine[8]\<close>, the jaw angle, the jaw roundness and the chin pointedness are \<open>NaN\<close>. The
  classifier does not abort on that account: whenever measurement derivation completes
  it returns the label that scoring and winner selection compute, and the chin pointedness
  and jaw roundness rules leave every score table as it is.
\<close>

theorem zero_length_vector_gives_NaN_angle:
  assumes "derive lm = Inr (Some m)"
    and "getJawOutline lm = Some jawLine"
    and "item jawLine 8 = Some chin"
    and "item jawLine 3 = Some chin \<or> item jawLine 13 = Some chin"
  shows "jawAngle m = NaN \<and> jawRoundness m = NaN \<and> chinPointedness m = NaN
     \<and> detectFaceShape lm = Some (decide m)
     \<and> score_chinPointedness m scores = scores \<and> score_jawRoundness m scores = scores"
proof -
  from derive_Some [OF assms(1)] assms(2) obtain leftEye rightEye where
    "measurements jawLine leftEye rightEye (getMouth lm) = Some m" by auto
  from measurements_Some_points [OF this] assms(3) obtain jl jr where
    points: "item jawLine 3 = Some jl" "item jawLine 13 = Some jr"
    and angle: "jawAngle m = chin_angle jl jr chin"
    and same: "chinPointedness m = jawAngle m" "jawRoundness m = Fin 180 - jawAngle m"
    by auto
  from assms(4) points have "jl = chin \<or> jr = chin" by auto
  then have "jawAngle m = NaN"
    using angle chin_angle_left_degenerate [of chin jr] chin_angle_right_degenerate [of jl chin]
    by auto
  with same have nan: "jawAngle m = NaN" "jawRoundness m = NaN" "chinPointedness m = NaN"
    by simp_all
  with NaN_bands_silent [of m scores] detect_of_derive [OF assms(1)] show ?thesis by simp
qed

theorem zero_length_vector_gives_NaN_angle_witness:
  "derive degenerate_face = Inr (Some degenerate_measurements)
   \<and> getJawOutline degenerate_face = Some degenerate_jaw
   \<and> item degenerate_jaw 8 = Some (pt 100 240)
   \<and> item degenerate_jaw 3 = Some (pt 100 240)
   \<and> jawAngle degenerate_measurements = NaN
   \<and> detectFaceShape degenerate_face = Some (decide degenerate_measurements)"
proof -
  have jaw: "getJawOutline degenerate_face = Some degenerate_jaw"
    by (simp add: degenerate_face_def)
  have chin: "item degenerate_jaw 8 = Some (pt 100 240)"
    and corner: "item degenerate_jaw 3 = Some (pt 100 240)"
    by (simp_all add: degenerate_jaw_def item_def)
  from corner have either:
    "item degenerate_jaw 3 = Some (pt 100 240) \<or> item degenerate_jaw 13 = Some (pt 100 240)"
    by simp
  from zero_length_vector_gives_NaN_angle [OF degenerate_derivation jaw chin either]
  show ?thesis using degenerate_derivation jaw chin corner by simp
qed

text \<open>
  C5. Whenever the two first entries of the ranked scores are oval and heart, in either
  order, the second score is above zero and at most 3 below the first, and the
  forehead-to-jaw ratio is above 1.22, the classifier returns heart.
\<close>

theorem oval_heart_tie_goes_to_heart:
  assumes "derive lm = Inr (Some m)"
    and "sortedScores (final_scores m) ! 0 = topShape"
    and "sortedScores (final_scores m) ! 1 = secondShape"
    and "(fst topShape = OVAL \<and> fst secondShape = HEART)
       \<or> (fst topShape = HEART \<and> fst secondShape = OVAL)"
    and "snd secondShape > 0"
    and "snd topShape - snd secondShape \<le> 3"
    and "foreheadToJawRatio m > Fin 1.22"
  shows "detectFaceShape lm = Some HEART"
proof -
  have "select_shape m (final_scores m) = HEART"
    using assms(2-7) by (intro select_shape_oval_heart) simp_all
  with detect_of_derive [OF assms(1)] show ?thesis by (simp add: decide_def)
qed

theorem oval_heart_tie_goes_to_heart_witness:
  "derive tie_face = Inr (Some tie_measurements)
   \<and> sortedScores (final_scores tie_measurements) ! 0 = (OVAL, 17)
   \<and> sortedScores (final_scores tie_measurements) ! 1 = (HEART, 16)
   \<and> Fin 1.22 < foreheadToJawRatio tie_measurements
   \<and> detectFaceShape tie_face = Some HEART"
proof -
  have ratio: "Fin 1.22 < foreheadToJawRatio tie_measurements"
    by (simp add: tie_measurements_def)
  from oval_heart_tie_goes_to_heart [OF tie_derivation tie_sortedScores _ _ _ ratio]
  have "detectFaceShape tie_face = Some HEART" by simp
  with tie_derivation tie_sortedScores ratio show ?thesis by simp
qed

text \<open>
  C9. Two landmark sets with the same jaw outline, left eye, right eye and mouth groups
  get the same result, whatever their nose groups are.
\<close>

theorem nose_does_not_matter:
  assumes "getJawOutline a = getJawOutline b" "getLeftEye a = getLeftEye b"
    and "getRightEye a = getRightEye b" "getMouth a = getMouth b"
  shows "detectFaceShape a = detectFaceShape b"
proof -
  have "derive a = derive b" unfolding derive_def Let_def assms by (rule refl)
  then show ?thesis by (simp add: detectFaceShape_def detect_try_def)
qed

theorem nose_does_not_matter_witness:
  "getNose (plain_face\<lparr>getNose := Some [pt 100 150, pt 100 170]\<rparr>) \<noteq> getNose plain_face
   \<and> detectFaceShape (plain_face\<lparr>getNose := Some [pt 100 150, pt 100 170]\<rparr>)
       = detectFaceShape plain_face"
  using nose_does_not_matter
    [of "plain_face\<lparr>getNose := Some [pt 100 150, pt 100 170]\<rparr>" plain_face]
  by (simp add: plain_face_def)

text \<open>
  C6. When neither the definitive heart check nor the definitive round check fires, the
  final table is the banded table changed by the chin ratio alone: at least 0.17 adds 15
  to oval; below 0.10 adds 5 to round and takes 3 from oval; from 0.10 to below 0.12 adds
  3 to round and takes 1 from oval; from 0.12 to below 0.15 adds 1 to oval; from 0.15 to
  below 0.17 adds 2 to oval. No other entry changes, and a chin ratio that is \<open>NaN\<close>
  changes nothing.
\<close>

theorem chin_ratio_gate:
  assumes "\<not> definitive_heart m" "\<not> definitive_round m"
  shows "(chinRatio m \<ge> Fin 0.17 \<longrightarrow>
            final_scores m = (banded_scores m)(OVAL := banded_scores m OVAL + 15))
     \<and> (chinRatio m < Fin 0.10 \<longrightarrow>
            final_scores m = (banded_scores m)
              (ROUND := banded_scores m ROUND + 5, OVAL := banded_scores m OVAL - 3))
     \<and> (chinRatio m \<ge> Fin 0.10 \<and> chinRatio m < Fin 0.12 \<longrightarrow>
            final_scores m = (banded_scores m)
              (ROUND := banded_scores m ROUND + 3, OVAL := banded_scores m OVAL - 1))
     \<and> (chinRatio m \<ge> Fin 0.12 \<and> chinRatio m < Fin 0.15 \<longrightarrow>
            final_scores m = (banded_scores m)(OVAL := banded_scores m OVAL + 1))
     \<and> (chinRatio m \<ge> Fin 0.15 \<and> chinRatio m < Fin 0.17 \<longrightarrow>
            final_scores m = (banded_scores m)(OVAL := banded_scores m OVAL + 2))
     \<and> (chinRatio m = NaN \<longrightarrow> final_scores m = banded_scores m)"
proof (cases "chinRatio m")
  case (Fin c)
  with assms show ?thesis
    by (simp add: final_scores_def score_definitive_def bump_def)
next
  case PInf
  with assms show ?thesis
    by (simp add: final_scores_def score_definitive_def bump_def)
next
  case NInf
  with assms show ?thesis
    by (simp add: final_scores_def score_definitive_def bump_def)
next
  case NaN
  with assms show ?thesis
    by (simp add: final_scores_def score_definitive_def bump_def)
qed

theorem chin_ratio_gate_witness:
  "\<not> definitive_heart plain_measurements \<and> \<not> definitive_round plain_measurements
   \<and> Fin 0.17 \<le> chinRatio plain_measurements
   \<and> banded_scores plain_measurements OVAL = 6
   \<and> final_scores plain_measurements
       = (banded_scores plain_measurements)(OVAL := banded_scores plain_measurements OVAL + 15)"
proof -
  have no_heart: "\<not> definitive_heart plain_measurements"
    and no_round: "\<not> definitive_round plain_measurements"
    and chin: "Fin 0.17 \<le> chinRatio plain_measurements"
    by (simp_all add: definitive_heart_def definitive_round_def plain_measurements_def)
  from chin_ratio_gate [OF no_heart no_round] chin
  have "final_scores plain_measurements
       = (banded_scores plain_measurements)(OVAL := banded_scores plain_measurements OVAL + 15)"
    by blast
  moreover have "banded_scores plain_measurements OVAL = 6"
    by (simp add: plain_banded_scores)
  ultimately show ?thesis using no_heart no_round chin by blast
qed

text \<open>
  C8. With every other measurement fixed, the round score for a width-to-height ratio
  above 0.95 is not below the round score for a width-to-height ratio below 0.78: both
  after the banded rules and in the final table.
\<close>

theorem wider_face_round_score:
  assumes "w1 > Fin 0.95" "w0 < Fin 0.78"
  shows "banded_scores (m\<lparr>widthToHeightRatio := w0\<rparr>) ROUND
           \<le> banded_scores (m\<lparr>widthToHeightRatio := w1\<rparr>) ROUND
     \<and> final_scores (m\<lparr>widthToHeightRatio := w0\<rparr>) ROUND
           \<le> final_scores (m\<lparr>widthToHeightRatio := w1\<rparr>) ROUND"
  using banded_round_monotone [OF assms, of m] final_round_monotone [OF assms, of m]
  by simp

theorem wider_face_round_score_witness:
  "Fin 0.95 < Fin 1 \<and> Fin 0.7 < Fin 0.78
   \<and> banded_scores (plain_measurements\<lparr>widthToHeightRatio := Fin 0.7\<rparr>) ROUND
        \<le> banded_scores (plain_measurements\<lparr>widthToHeightRatio := Fin 1\<rparr>) ROUND
   \<and> final_scores (plain_measurements\<lparr>widthToHeightRatio := Fin 0.7\<rparr>) ROUND
        \<le> final_scores (plain_measurements\<lparr>widthToHeightRatio := Fin 1\<rparr>) ROUND"
proof -
  have high: "Fin 0.95 < Fin 1" and low: "Fin 0.7 < Fin 0.78" by simp_all
  from wider_face_round_score [OF high low, of plain_measurements] high low
  show ?thesis by blast
qed

text \<open>
  C10. Whenever classification completes and some final score is above zero, the label
  returned is the shape of the first or of the second entry of the ranked scores, and at
  most one shape has a final score above the score of the label returned.
\<close>

theorem winner_among_top_two:
  assumes "derive lm = Inr (Some m)"
    and "0 < final_scores m k"
  shows "detectFaceShape lm = Some (decide m)
     \<and> (decide m = fst (sortedScores (final_scores m) ! 0)
        \<or> decide m = fst (sortedScores (final_scores m) ! 1))
     \<and> card {j. final_scores m (decide m) < final_scores m j} \<le> 1"
proof -
  have "0 < fst (find_highest 0 OVAL (entries (final_scores m)))"
    using assms(2) by (rule positive_score_positive_max)
  from select_shape_in_top_two [OF this, of m]
  have top_two: "decide m = fst (sortedScores (final_scores m) ! 0)
        \<or> decide m = fst (sortedScores (final_scores m) ! 1)"
    by (simp add: decide_def)
  from at_most_one_above [OF this] detect_of_derive [OF assms(1)] top_two
  show ?thesis by simp
qed

theorem winner_among_top_two_witness:
  "derive tie_face = Inr (Some tie_measurements)
   \<and> 0 < final_scores tie_measurements OVAL
   \<and> detectFaceShape tie_face = Some HEART
   \<and> decide tie_measurements = HEART
   \<and> fst (sortedScores (final_scores tie_measurements) ! 1) = HEART
   \<and> card {j. final_scores tie_measurements HEART < final_scores tie_measurements j} \<le> 1"
proof -
  have positive: "0 < final_scores tie_measurements OVAL" by (simp add: tie_final_scores)
  have "Fin 1.22 < foreheadToJawRatio tie_measurements" by (simp add: tie_measurements_def)
  then have "select_shape tie_measurements (final_scores tie_measurements) = HEART"
    by (intro select_shape_oval_heart; simp only: tie_sortedScores; simp)
  then have heart: "decide tie_measurements = HEART" by (simp add: decide_def)
  from winner_among_top_two [OF tie_derivation positive] heart positive tie_derivation
  show ?thesis by (simp only: tie_sortedScores) simp
qed

end
